theory Spec2Isabelle
  imports Main
begin

section \<open>Results of calls\<close>

text \<open>
  A Go error value. \<open>ErrorString\<close> is an opaque error carrying a message,
  \<open>AWSError\<close> an error implementing \<open>awserr.Error\<close> (code, message),
  \<open>WithMessage\<close> the result of \<open>errorUtil.Wrap\<close> / \<open>errorUtil.Wrapf\<close>
  (the cause and the formatted message), \<open>ErrWaitTimeout\<close> the error of the
  wait package, \<open>SyntaxError\<close> and \<open>UnmarshalTypeError\<close> the two errors of
  \<open>json.Unmarshal\<close> (the latter with the JSON kind met and the key of the field it was
  for, empty at the top of the document).
\<close>

datatype error =
    ErrorString string
  | AWSError string string
  | WithMessage error string
  | ErrWaitTimeout
  | SyntaxError
  | UnmarshalTypeError string string

text \<open>
  A call either returns or panics; a panic carries the value given to \<open>panic\<close>, a
  string or an error.
\<close>

datatype panic = PanicString string | PanicError error

datatype 'a outcome = Returns 'a | Panics panic

section \<open>encoding/json, as far as config.go uses it\<close>

text \<open>
  \<open>json.Unmarshal\<close> belongs to Go's standard library. It is modelled here in three
  steps, for a document given as a list of bytes: the text is split into tokens
  (\<open>tokenize\<close>; string literals are unquoted on the way), the tokens are parsed into a
  JSON value (\<open>json_parse\<close>; the grammar of RFC 8259, which is what Go's scanner
  accepts), and the value is stored into the struct (\<open>json_Unmarshal\<close>). A document
  that is not valid JSON is a \<open>SyntaxError\<close> before anything is stored.
\<close>

subsection \<open>Bytes\<close>

definition byte :: "char \<Rightarrow> nat" where
  "byte c = of_char c"

definition in_range :: "char \<Rightarrow> nat \<Rightarrow> nat \<Rightarrow> bool" where
  "in_range c lo hi = (lo \<le> byte c \<and> byte c \<le> hi)"

definition isSpace :: "char \<Rightarrow> bool" where
  "isSpace c = (c = CHR '' '' \<or> c = CHR 0x09 \<or> c = CHR 0x0D \<or> c = CHR 0x0A)"

definition isDigit :: "char \<Rightarrow> bool" where
  "isDigit c = in_range c 0x30 0x39"

definition hexval :: "char \<Rightarrow> nat option" where
  "hexval c =
     (if in_range c 0x30 0x39 then Some (byte c - 0x30)
      else if in_range c 0x61 0x66 then Some (byte c - 0x61 + 10)
      else if in_range c 0x41 0x46 then Some (byte c - 0x41 + 10)
      else None)"

text \<open>
  \<open>getu4\<close> reads an escape \<open>\uXXXX\<close> at the head of the input; \<open>EncodeRune\<close> is the
  UTF-8 encoding of a code point, the replacement character \<open>U+FFFD\<close> standing for a
  surrogate or a value out of range; \<open>rune_len\<close> is the length of the well-formed
  UTF-8 sequence at the head of the input, 0 when there is none.
\<close>

definition getu4 :: "string \<Rightarrow> nat option" where
  "getu4 s =
     (case s of
        a # b # c # d # e # f # _ \<Rightarrow>
          if a = CHR 0x5C \<and> b = CHR ''u'' then
            (case (hexval c, hexval d, hexval e, hexval f) of
               (Some h3, Some h2, Some h1, Some h0) \<Rightarrow> Some (((h3 * 16 + h2) * 16 + h1) * 16 + h0)
             | _ \<Rightarrow> None)
          else None
      | _ \<Rightarrow> None)"

definition RuneError :: nat where
  "RuneError = 0xFFFD"

definition isSurrogate :: "nat \<Rightarrow> bool" where
  "isSurrogate r = (0xD800 \<le> r \<and> r < 0xE000)"

definition utf16_DecodeRune :: "nat \<Rightarrow> nat \<Rightarrow> nat" where
  "utf16_DecodeRune r1 r2 =
     (if 0xD800 \<le> r1 \<and> r1 < 0xDC00 \<and> 0xDC00 \<le> r2 \<and> r2 < 0xE000
      then (r1 - 0xD800) * 0x400 + (r2 - 0xDC00) + 0x10000
      else RuneError)"

definition EncodeRune :: "nat \<Rightarrow> string" where
  "EncodeRune r =
     (if r \<le> 0x7F then [char_of r]
      else if r \<le> 0x7FF then [char_of (0xC0 + r div 0x40), char_of (0x80 + r mod 0x40)]
      else if 0x10FFFF < r \<or> isSurrogate r then [CHR 0xEF, CHR 0xBF, CHR 0xBD]
      else if r \<le> 0xFFFF then
        [char_of (0xE0 + r div 0x1000), char_of (0x80 + (r div 0x40) mod 0x40),
         char_of (0x80 + r mod 0x40)]
      else
        [char_of (0xF0 + r div 0x40000), char_of (0x80 + (r div 0x1000) mod 0x40),
         char_of (0x80 + (r div 0x40) mod 0x40), char_of (0x80 + r mod 0x40)])"

definition rune_len :: "string \<Rightarrow> nat" where
  "rune_len s =
     (case s of
        [] \<Rightarrow> 0
      | c0 # r \<Rightarrow>
          if in_range c0 0xC2 0xDF then
            (case r of c1 # _ \<Rightarrow> if in_range c1 0x80 0xBF then 2 else 0 | _ \<Rightarrow> 0)
          else if in_range c0 0xE0 0xEF then
            (case r of
               c1 # c2 # _ \<Rightarrow>
                 if in_range c1 (if byte c0 = 0xE0 then 0xA0 else 0x80)
                      (if byte c0 = 0xED then 0x9F else 0xBF)
                    \<and> in_range c2 0x80 0xBF
                 then 3 else 0
             | _ \<Rightarrow> 0)
          else if in_range c0 0xF0 0xF4 then
            (case r of
               c1 # c2 # c3 # _ \<Rightarrow>
                 if in_range c1 (if byte c0 = 0xF0 then 0x90 else 0x80)
                      (if byte c0 = 0xF4 then 0x8F else 0xBF)
                    \<and> in_range c2 0x80 0xBF \<and> in_range c3 0x80 0xBF
                 then 4 else 0
             | _ \<Rightarrow> 0)
          else 0)"

definition simple_escape :: "char \<Rightarrow> char option" where
  "simple_escape e =
     (if e = CHR 0x22 \<or> e = CHR 0x5C \<or> e = CHR ''/'' then Some e
      else if e = CHR ''b'' then Some (CHR 0x08)
      else if e = CHR ''f'' then Some (CHR 0x0C)
      else if e = CHR ''n'' then Some (CHR 0x0A)
      else if e = CHR ''r'' then Some (CHR 0x0D)
      else if e = CHR ''t'' then Some (CHR 0x09)
      else None)"

definition emit :: "string \<Rightarrow> (string \<times> string) option \<Rightarrow> (string \<times> string) option" where
  "emit bs r = (case r of None \<Rightarrow> None | Some (s, rest) \<Rightarrow> Some (bs @ s, rest))"

text \<open>
  A string literal, read from just after its opening quote: the unquoted bytes and the
  input after the closing quote. An escaped surrogate pair is one code point, a lone
  surrogate and an ill-formed byte become \<open>U+FFFD\<close>; a control character, an unknown
  escape and a missing closing quote are errors (\<open>None\<close>).
\<close>

function string_lit :: "string \<Rightarrow> (string \<times> string) option" where
  "string_lit [] = None"
| "string_lit (c # cs) =
     (if c = CHR 0x22 then Some ([], cs)
      else if c = CHR 0x5C then
        (case cs of
           [] \<Rightarrow> None
         | e # es \<Rightarrow>
             if e = CHR ''u'' then
               (case getu4 (c # cs) of
                  None \<Rightarrow> None
                | Some rr \<Rightarrow>
                    if isSurrogate rr then
                      (case getu4 (drop 4 es) of
                         None \<Rightarrow> emit (EncodeRune RuneError) (string_lit (drop 4 es))
                       | Some rr1 \<Rightarrow>
                           if utf16_DecodeRune rr rr1 \<noteq> RuneError
                           then emit (EncodeRune (utf16_DecodeRune rr rr1)) (string_lit (drop 10 es))
                           else emit (EncodeRune RuneError) (string_lit (drop 4 es)))
                    else emit (EncodeRune rr) (string_lit (drop 4 es)))
             else
               (case simple_escape e of
                  None \<Rightarrow> None
                | Some b \<Rightarrow> emit [b] (string_lit es)))
      else if byte c < 0x20 then None
      else if byte c < 0x80 then emit [c] (string_lit cs)
      else if rune_len (c # cs) = 0 then emit (EncodeRune RuneError) (string_lit cs)
      else emit (take (rune_len (c # cs)) (c # cs)) (string_lit (drop (rune_len (c # cs)) (c # cs))))"
  by pat_completeness auto
termination
  by (relation "measure length") auto


lemma string_lit_shorter: "string_lit cs = Some (s, rest) \<Longrightarrow> length rest \<le> length cs"
proof (induction cs arbitrary: s rest rule: string_lit.induct)
  case 1
  then show ?case by simp
next
  case (2 c cs)
  show ?case
    using "2.prems" "2.IH"
    by (fastforce simp add: emit_def split: if_splits list.splits option.splits prod.splits)
qed

text \<open>A number literal: the lexeme and the rest of the input.\<close>

definition digits_lit :: "string \<Rightarrow> (string \<times> string) option" where
  "digits_lit cs =
     (if takeWhile isDigit cs = [] then None
      else Some (takeWhile isDigit cs, dropWhile isDigit cs))"

definition int_lit :: "string \<Rightarrow> (string \<times> string) option" where
  "int_lit cs =
     (case cs of
        [] \<Rightarrow> None
      | c # r \<Rightarrow>
          if c = CHR ''0'' then Some ([c], r)
          else if in_range c 0x31 0x39 then Some (c # takeWhile isDigit r, dropWhile isDigit r)
          else None)"

definition frac_lit :: "string \<Rightarrow> (string \<times> string) option" where
  "frac_lit cs =
     (case cs of
        [] \<Rightarrow> Some ([], cs)
      | c # r \<Rightarrow>
          if c = CHR ''.'' then
            (case digits_lit r of None \<Rightarrow> None | Some (ds, r') \<Rightarrow> Some (c # ds, r'))
          else Some ([], cs))"

definition exp_lit :: "string \<Rightarrow> (string \<times> string) option" where
  "exp_lit cs =
     (case cs of
        [] \<Rightarrow> Some ([], cs)
      | c # r \<Rightarrow>
          if c = CHR ''e'' \<or> c = CHR ''E'' then
            (case r of
               [] \<Rightarrow> None
             | g # r' \<Rightarrow>
                 if g = CHR ''+'' \<or> g = CHR ''-'' then
                   (case digits_lit r' of None \<Rightarrow> None | Some (ds, r'') \<Rightarrow> Some (c # g # ds, r''))
                 else
                   (case digits_lit r of None \<Rightarrow> None | Some (ds, r'') \<Rightarrow> Some (c # ds, r'')))
          else Some ([], cs))"

definition number_lit :: "string \<Rightarrow> (string \<times> string) option" where
  "number_lit cs =
     (case (case cs of c # r \<Rightarrow> if c = CHR ''-'' then emit [c] (int_lit r) else int_lit cs
                     | [] \<Rightarrow> None) of
        None \<Rightarrow> None
      | Some (i, r1) \<Rightarrow>
          (case frac_lit r1 of
             None \<Rightarrow> None
           | Some (f, r2) \<Rightarrow>
               (case exp_lit r2 of
                  None \<Rightarrow> None
                | Some (e, r3) \<Rightarrow> Some (i @ f @ e, r3))))"


lemma digits_lit_shorter: "digits_lit cs = Some (s, rest) \<Longrightarrow> length rest < length cs"
  by (cases cs) (auto simp: digits_lit_def length_dropWhile_le le_imp_less_Suc split: if_splits)

lemma int_lit_shorter: "int_lit cs = Some (s, rest) \<Longrightarrow> length rest < length cs"
  by (auto simp: int_lit_def length_dropWhile_le le_imp_less_Suc split: list.splits if_splits)

lemma frac_lit_shorter: "frac_lit cs = Some (s, rest) \<Longrightarrow> length rest \<le> length cs"
  by (auto simp: frac_lit_def split: list.splits if_splits option.splits dest!: digits_lit_shorter)

lemma exp_lit_shorter: "exp_lit cs = Some (s, rest) \<Longrightarrow> length rest \<le> length cs"
  by (auto simp: exp_lit_def split: list.splits if_splits option.splits dest!: digits_lit_shorter)

lemma number_lit_shorter: "number_lit cs = Some (s, rest) \<Longrightarrow> length rest < length cs"
  by (auto simp: number_lit_def emit_def split: list.splits if_splits option.splits
      dest!: int_lit_shorter frac_lit_shorter exp_lit_shorter)


subsection \<open>Tokens\<close>

datatype token =
    LBrace | RBrace | LBrack | RBrack | Colon | Comma
  | TString string | TNumber string | TTrue | TFalse | TNull

definition literal :: "string \<Rightarrow> token \<Rightarrow> string \<Rightarrow> (token \<times> string) option" where
  "literal w t cs = (if take (length w) cs = w then Some (t, drop (length w) cs) else None)"

definition punct :: "char \<Rightarrow> token option" where
  "punct c =
     (if c = CHR ''{'' then Some LBrace
      else if c = CHR ''}'' then Some RBrace
      else if c = CHR ''['' then Some LBrack
      else if c = CHR '']'' then Some RBrack
      else if c = CHR '':'' then Some Colon
      else if c = CHR '','' then Some Comma
      else None)"

definition keyword :: "char \<Rightarrow> (string \<times> token) option" where
  "keyword c =
     (if c = CHR ''t'' then Some (''rue'', TTrue)
      else if c = CHR ''f'' then Some (''alse'', TFalse)
      else if c = CHR ''n'' then Some (''ull'', TNull)
      else None)"

definition next_token :: "char \<Rightarrow> string \<Rightarrow> (token \<times> string) option" where
  "next_token c cs =
     (case punct c of
        Some t \<Rightarrow> Some (t, cs)
      | None \<Rightarrow>
          if c = CHR 0x22 then
            (case string_lit cs of None \<Rightarrow> None | Some (s, rest) \<Rightarrow> Some (TString s, rest))
          else if c = CHR ''-'' \<or> isDigit c then
            (case number_lit (c # cs) of None \<Rightarrow> None | Some (s, rest) \<Rightarrow> Some (TNumber s, rest))
          else
            (case keyword c of None \<Rightarrow> None | Some (w, t) \<Rightarrow> literal w t cs))"

lemma literal_shorter: "literal w t' cs = Some (t, rest) \<Longrightarrow> length rest \<le> length cs"
  by (auto simp add: literal_def split: if_splits)

lemma next_token_shorter: "next_token c cs = Some (t, rest) \<Longrightarrow> length rest \<le> length cs"
  unfolding next_token_def
  by (auto split: option.splits if_splits prod.splits
      dest: string_lit_shorter number_lit_shorter literal_shorter)

function tokenize :: "string \<Rightarrow> token list option" where
  "tokenize [] = Some []"
| "tokenize (c # cs) =
     (if isSpace c then tokenize cs
      else
        (case next_token c cs of
           None \<Rightarrow> None
         | Some (t, rest) \<Rightarrow>
             (case tokenize rest of None \<Rightarrow> None | Some ts \<Rightarrow> Some (t # ts))))"
  by pat_completeness auto
termination
proof (relation "measure length")
  show "wf (measure length)" by simp
next
  fix c :: char and cs :: string
  assume "isSpace c"
  show "(cs, c # cs) \<in> measure length" by simp
next
  fix c :: char and cs :: string and x2 :: "token \<times> string" and x y
  assume "\<not> isSpace c" "next_token c cs = Some x2" "(x, y) = x2"
  then have "next_token c cs = Some (x, y)" by simp
  then have "length y \<le> length cs" by (rule next_token_shorter)
  then show "(y, c # cs) \<in> measure length" by simp
qed


subsection \<open>Values\<close>

text \<open>
  The parser reads the tokens one at a time, with a stack of the arrays and objects
  that are still open: an \<open>InArray\<close> frame holds the elements read so far, an
  \<open>InObject\<close> frame the members read so far and the key whose value is awaited
  (both lists newest first).
\<close>

datatype json =
    JNull | JBool bool | JNumber string | JString string
  | JArray "json list" | JObject "(string \<times> json) list"

datatype frame = InArray "json list" | InObject "(string \<times> json) list" string

datatype pstate = BeginValue | BeginValueOrEnd | BeginKeyOrEnd | BeginKey | AfterKey | AfterValue | Done json

definition complete :: "json \<Rightarrow> frame list \<Rightarrow> pstate \<times> frame list" where
  "complete v stack =
     (case stack of
        [] \<Rightarrow> (Done v, [])
      | InArray xs # st \<Rightarrow> (AfterValue, InArray (v # xs) # st)
      | InObject ms k # st \<Rightarrow> (AfterValue, InObject ((k, v) # ms) k # st))"

definition scalar :: "token \<Rightarrow> json option" where
  "scalar t =
     (case t of
        TString s \<Rightarrow> Some (JString s)
      | TNumber s \<Rightarrow> Some (JNumber s)
      | TTrue \<Rightarrow> Some (JBool True)
      | TFalse \<Rightarrow> Some (JBool False)
      | TNull \<Rightarrow> Some JNull
      | _ \<Rightarrow> None)"

definition pstep :: "pstate \<Rightarrow> frame list \<Rightarrow> token \<Rightarrow> (pstate \<times> frame list) option" where
  "pstep st stack t =
     (case st of
        Done v \<Rightarrow> None
      | AfterKey \<Rightarrow> (if t = Colon then Some (BeginValue, stack) else None)
      | AfterValue \<Rightarrow>
          (case stack of
             [] \<Rightarrow> None
           | InArray xs # rest \<Rightarrow>
               if t = Comma then Some (BeginValue, stack)
               else if t = RBrack then Some (complete (JArray (rev xs)) rest)
               else None
           | InObject ms k # rest \<Rightarrow>
               if t = Comma then Some (BeginKey, stack)
               else if t = RBrace then Some (complete (JObject (rev ms)) rest)
               else None)
      | BeginKey \<Rightarrow>
          (case (t, stack) of
             (TString k, InObject ms _ # rest) \<Rightarrow> Some (AfterKey, InObject ms k # rest)
           | _ \<Rightarrow> None)
      | BeginKeyOrEnd \<Rightarrow>
          (case (t, stack) of
             (TString k, InObject ms _ # rest) \<Rightarrow> Some (AfterKey, InObject ms k # rest)
           | (RBrace, InObject ms _ # rest) \<Rightarrow> Some (complete (JObject (rev ms)) rest)
           | _ \<Rightarrow> None)
      | _ \<Rightarrow>
          (if t = LBrack then Some (BeginValueOrEnd, InArray [] # stack)
           else if t = LBrace then Some (BeginKeyOrEnd, InObject [] [] # stack)
           else if t = RBrack \<and> st = BeginValueOrEnd then
             (case stack of InArray xs # rest \<Rightarrow> Some (complete (JArray (rev xs)) rest) | _ \<Rightarrow> None)
           else
             (case scalar t of None \<Rightarrow> None | Some v \<Rightarrow> Some (complete v stack))))"

fun prun :: "pstate \<Rightarrow> frame list \<Rightarrow> token list \<Rightarrow> json option" where
  "prun st stack [] = (case st of Done v \<Rightarrow> Some v | _ \<Rightarrow> None)"
| "prun st stack (t # ts) =
     (case pstep st stack t of None \<Rightarrow> None | Some (st', stack') \<Rightarrow> prun st' stack' ts)"

definition json_parse :: "string \<Rightarrow> json option" where
  "json_parse data = (case tokenize data of None \<Rightarrow> None | Some ts \<Rightarrow> prun BeginValue [] ts)"

subsection \<open>Storing an object into DeploymentStrategyMapping\<close>

text \<open>
  The struct of config.go, with the keys of its \<open>json\<close> tags. A member of the
  document is stored into the field whose key equals the member's key, or else into the
  first field whose key equals it under case folding (\<open>equalFold\<close>: ASCII letters
  regardless of case, and the two non-ASCII code points that fold to an ASCII letter,
  \<open>U+017F\<close> to s and \<open>U+212A\<close> to k). A member with no such field is skipped.
\<close>

record DeploymentStrategyMapping =
  BlobStorage :: string
  SMTPCredentials :: string
  Redis :: string
  Postgres :: string

datatype field = F_BlobStorage | F_SMTPCredentials | F_Redis | F_Postgres

definition fields :: "(string \<times> field) list" where
  "fields =
     [(''blobstorage'', F_BlobStorage), (''smtpCredentials'', F_SMTPCredentials),
      (''redis'', F_Redis), (''postgres'', F_Postgres)]"

definition toUpper :: "char \<Rightarrow> char" where
  "toUpper c = (if in_range c 0x61 0x7A then char_of (byte c - 0x20) else c)"

fun equalFold :: "string \<Rightarrow> string \<Rightarrow> bool" where
  "equalFold [] [] = True"
| "equalFold [] (t # ts) = False"
| "equalFold (s # ss) [] = False"
| "equalFold (s # ss) (t # ts) =
     (if byte t < 0x80 then toUpper s = toUpper t \<and> equalFold ss ts
      else if toUpper s = CHR ''S'' then
        (case ts of t1 # r \<Rightarrow> t = CHR 0xC5 \<and> t1 = CHR 0xBF \<and> equalFold ss r | _ \<Rightarrow> False)
      else if toUpper s = CHR ''K'' then
        (case ts of
           t1 # t2 # r \<Rightarrow> t = CHR 0xE2 \<and> t1 = CHR 0x84 \<and> t2 = CHR 0xAA \<and> equalFold ss r
         | _ \<Rightarrow> False)
      else False)"

definition findField :: "string \<Rightarrow> field option" where
  "findField key =
     (case find (\<lambda>(n, f). n = key) fields of
        Some (n, f) \<Rightarrow> Some f
      | None \<Rightarrow>
          (case find (\<lambda>(n, f). equalFold n key) fields of
             Some (n, f) \<Rightarrow> Some f
           | None \<Rightarrow> None))"

text \<open>
  A string value is stored, \<open>null\<close> leaves the field as it is, and a value of any
  other kind is an \<open>UnmarshalTypeError\<close>: decoding goes on, and the first such
  error is returned at the end. A later member overwrites an earlier one. At the top,
  \<open>null\<close> stores nothing and succeeds, and a value that is not an object is an
  \<open>UnmarshalTypeError\<close>.
\<close>

definition kind_of :: "json \<Rightarrow> string" where
  "kind_of v =
     (case v of
        JNull \<Rightarrow> ''null'' | JBool b \<Rightarrow> ''bool'' | JNumber n \<Rightarrow> ''number''
      | JString s \<Rightarrow> ''string'' | JArray xs \<Rightarrow> ''array'' | JObject ms \<Rightarrow> ''object'')"

definition fieldName :: "field \<Rightarrow> string" where
  "fieldName f =
     (case f of
        F_BlobStorage \<Rightarrow> ''blobstorage'' | F_SMTPCredentials \<Rightarrow> ''smtpCredentials''
      | F_Redis \<Rightarrow> ''redis'' | F_Postgres \<Rightarrow> ''postgres'')"

definition setField :: "field \<Rightarrow> string \<Rightarrow> DeploymentStrategyMapping \<Rightarrow> DeploymentStrategyMapping" where
  "setField f s d =
     (case f of
        F_BlobStorage \<Rightarrow> d\<lparr>BlobStorage := s\<rparr>
      | F_SMTPCredentials \<Rightarrow> d\<lparr>SMTPCredentials := s\<rparr>
      | F_Redis \<Rightarrow> d\<lparr>Redis := s\<rparr>
      | F_Postgres \<Rightarrow> d\<lparr>Postgres := s\<rparr>)"

definition getField :: "field \<Rightarrow> DeploymentStrategyMapping \<Rightarrow> string" where
  "getField f d =
     (case f of
        F_BlobStorage \<Rightarrow> BlobStorage d
      | F_SMTPCredentials \<Rightarrow> SMTPCredentials d
      | F_Redis \<Rightarrow> Redis d
      | F_Postgres \<Rightarrow> Postgres d)"

definition saveError :: "error option \<Rightarrow> error \<Rightarrow> error option" where
  "saveError saved e = (case saved of None \<Rightarrow> Some e | Some e0 \<Rightarrow> Some e0)"

fun decode_members ::
  "(string \<times> json) list \<Rightarrow> DeploymentStrategyMapping \<Rightarrow> error option
     \<Rightarrow> DeploymentStrategyMapping \<times> error option" where
  "decode_members [] d saved = (d, saved)"
| "decode_members ((k, v) # ms) d saved =
     (case findField k of
        None \<Rightarrow> decode_members ms d saved
      | Some f \<Rightarrow>
          (case v of
             JString s \<Rightarrow> decode_members ms (setField f s d) saved
           | JNull \<Rightarrow> decode_members ms d saved
           | _ \<Rightarrow> decode_members ms d (saveError saved (UnmarshalTypeError (kind_of v) (fieldName f)))))"

definition zero_DeploymentStrategyMapping :: DeploymentStrategyMapping where
  "zero_DeploymentStrategyMapping =
     \<lparr>BlobStorage = [], SMTPCredentials = [], Redis = [], Postgres = []\<rparr>"

definition json_Unmarshal :: "string \<Rightarrow> error + DeploymentStrategyMapping" where
  "json_Unmarshal data =
     (case json_parse data of
        None \<Rightarrow> Inl SyntaxError
      | Some v \<Rightarrow>
          (case v of
             JObject ms \<Rightarrow>
               (case decode_members ms zero_DeploymentStrategyMapping None of
                  (d, None) \<Rightarrow> Inr d
                | (d, Some e) \<Rightarrow> Inl e)
           | JNull \<Rightarrow> Inr zero_DeploymentStrategyMapping
           | _ \<Rightarrow> Inl (UnmarshalTypeError (kind_of v) [])))"

section \<open>The configuration manager (src/pkg/providers/config.go)\<close>

definition DefaultConfigNamespace :: string where
  "DefaultConfigNamespace = ''kube-system''"

definition DefaultProviderConfigMapName :: string where
  "DefaultProviderConfigMapName = ''cloud-resource-config''"

text \<open>
  A \<open>v1.ConfigMap\<close>: its name, its namespace and its data. Indexing a Go map at a
  missing key gives the empty string (\<open>map_index\<close>).
\<close>

record ConfigMap =
  cm_Name :: string
  cm_Namespace :: string
  Data :: "string \<rightharpoonup> string"

datatype get_result = Found ConfigMap | NotFound | Unreachable error

record ConfigMapConfigManager =
  client :: "string \<Rightarrow> string \<Rightarrow> get_result"
  providerConfigMapName :: string
  providerConfigMapNamespace :: string

definition NewConfigManager ::
  "string \<Rightarrow> string \<Rightarrow> (string \<Rightarrow> string \<Rightarrow> get_result) \<Rightarrow> ConfigMapConfigManager" where
  "NewConfigManager cm namespace c =
     \<lparr>client = c,
      providerConfigMapName = (if cm = [] then DefaultProviderConfigMapName else cm),
      providerConfigMapNamespace = (if namespace = [] then DefaultConfigNamespace else namespace)\<rparr>"

definition managed_seed :: string where
  \<open>managed_seed = ''{"blobstorage":"aws", "smtpcredentials": "aws", "redis":"aws", "postgres":"aws"}''\<close>

definition workshop_seed :: string where
  \<open>workshop_seed = ''{"blobstorage":"aws", "smtpcredentials": "aws", "redis":"openshift", "postgres":"openshift"}''\<close>

definition buildDefaultConfigMap :: "ConfigMapConfigManager \<Rightarrow> ConfigMap" where
  "buildDefaultConfigMap m =
     \<lparr>cm_Name = providerConfigMapName m,
      cm_Namespace = providerConfigMapNamespace m,
      Data = [''managed'' \<mapsto> managed_seed, ''workshop'' \<mapsto> workshop_seed]\<rparr>"

text \<open>
  Modelled from the spec: \<open>resources.GetConfigMapOrDefault\<close> is not among the files at
  hand. The spec has the Config Manager resolve "a default Strategy Store entry when
  none configured" and fail "when the Strategy Store is unreachable". The client's
  answer to the read is \<open>Found\<close>, \<open>NotFound\<close> or \<open>Unreachable\<close>.
\<close>

definition GetConfigMapOrDefault ::
  "(string \<Rightarrow> string \<Rightarrow> get_result) \<Rightarrow> string \<Rightarrow> string \<Rightarrow> ConfigMap \<Rightarrow> error + ConfigMap" where
  "GetConfigMapOrDefault c name namespace def =
     (case c name namespace of
        Found cm \<Rightarrow> Inr cm
      | NotFound \<Rightarrow> Inr def
      | Unreachable e \<Rightarrow> Inl e)"

definition map_index :: "(string \<rightharpoonup> string) \<Rightarrow> string \<Rightarrow> string" where
  "map_index m k = (case m k of None \<Rightarrow> [] | Some v \<Rightarrow> v)"

definition GetStrategyMappingForDeploymentType ::
  "ConfigMapConfigManager \<Rightarrow> string \<Rightarrow> error + DeploymentStrategyMapping" where
  "GetStrategyMappingForDeploymentType m t =
     (case GetConfigMapOrDefault (client m) (providerConfigMapName m) (providerConfigMapNamespace m)
             (buildDefaultConfigMap m) of
        Inl err \<Rightarrow>
          Inl (WithMessage err
                (''failed to read provider config from configmap '' @ providerConfigMapName m
                 @ '' in namespace '' @ providerConfigMapNamespace m))
      | Inr cm \<Rightarrow>
          (case json_Unmarshal (map_index (Data cm) t) of
             Inl err \<Rightarrow> Inl (WithMessage err (''failed to unmarshal config for deployment type '' @ t))
           | Inr dsm \<Rightarrow> Inr dsm))"

subsection \<open>What a stored object gives each field\<close>

text \<open>
  Read off the members of a JSON object, independently of the decoder: the strings the
  object holds under the keys of a field, in the order of the document
  (\<open>stored_values\<close>), the last of them or else the empty string (\<open>stored_value\<close>),
  and the type errors of the members that belong to a field but hold neither a string
  nor \<open>null\<close> (\<open>type_errors\<close>).
\<close>

definition storable :: "json \<Rightarrow> bool" where
  "storable v = (case v of JString s \<Rightarrow> True | JNull \<Rightarrow> True | _ \<Rightarrow> False)"

definition stored_values :: "field \<Rightarrow> (string \<times> json) list \<Rightarrow> string list" where
  "stored_values f ms =
     List.map_filter
       (\<lambda>(k, v). case v of JString s \<Rightarrow> if findField k = Some f then Some s else None | _ \<Rightarrow> None) ms"

definition stored_value :: "field \<Rightarrow> (string \<times> json) list \<Rightarrow> string" where
  "stored_value f ms = (if stored_values f ms = [] then [] else last (stored_values f ms))"

definition type_errors :: "(string \<times> json) list \<Rightarrow> error list" where
  "type_errors ms =
     List.map_filter
       (\<lambda>(k, v). case findField k of
                    None \<Rightarrow> None
                  | Some f \<Rightarrow> if storable v then None
                             else Some (UnmarshalTypeError (kind_of v) (fieldName f))) ms"

text \<open>
  A stored document that gives only one of the four fields, and a manager whose client
  finds it.
\<close>

definition partial_document :: string where
  \<open>partial_document = ''{"blobstorage":"aws"}''\<close>

definition partial_configmap :: ConfigMap where
  "partial_configmap =
     \<lparr>cm_Name = DefaultProviderConfigMapName, cm_Namespace = DefaultConfigNamespace,
      Data = [''managed'' \<mapsto> partial_document]\<rparr>"

definition partial_manager :: ConfigMapConfigManager where
  "partial_manager = NewConfigManager [] [] (\<lambda>name namespace. Found partial_configmap)"

section \<open>The azure Postgres provider (src/unnamed/part\_000)\<close>

definition PostgresProvider_GetName :: "string" where
  "PostgresProvider_GetName = ''Azure Postgres Provider''"

definition PostgresProvider_SupportsStrategy :: "string \<Rightarrow> bool" where
  "PostgresProvider_SupportsStrategy s = (s = ''azure'')"

text \<open>The request \<open>v1alpha1.Postgres\<close>, as far as the provider reads it.\<close>

record v1alpha1_Postgres =
  ps_Name :: string
  ps_Namespace :: string

text \<open>
  \<open>DeletePostgres\<close> returns a status message and an error in Go; its body is the
  single statement \<open>panic("implement me")\<close>.
\<close>

definition DeletePostgres :: "v1alpha1_Postgres \<Rightarrow> (string \<times> error option) outcome" where
  "DeletePostgres ps = Panics (PanicString ''implement me'')"

section \<open>The AWS blob storage provider (src/pkg/providers/aws/provider\_blobstorage.go)\<close>

text \<open>
  Modelled from the spec: the constant \<open>providers.AWSDeploymentStrategy\<close> is
  declared outside the files at hand; the spec names the provider \<open>"aws"\<close>.
\<close>

definition AWSDeploymentStrategy :: string where
  "AWSDeploymentStrategy = ''aws''"

definition BlobStorageProvider_GetName :: "string" where
  "BlobStorageProvider_GetName = AWSDeploymentStrategy"

definition BlobStorageProvider_SupportsStrategy :: "string \<Rightarrow> bool" where
  "BlobStorageProvider_SupportsStrategy d = (d = AWSDeploymentStrategy)"

subsection \<open>Data\<close>

text \<open>
  The request \<open>v1alpha1.BlobStorage\<close>, as far as the provider reads and writes it:
  name, namespace, \<open>Spec.Tier\<close>, the deletion timestamp and the finalizers of its
  metadata.
\<close>

record v1alpha1_BlobStorage =
  Name :: string
  Namespace :: string
  Tier :: string
  DeletionTimestamp :: "nat option"
  Finalizers :: "string list"

record StrategyConfig =
  Region :: string
  RawStrategy :: string

record AWSCredentials =
  AccessKeyID :: string
  SecretAccessKey :: string

text \<open>
  \<open>s3.CreateBucketInput\<close> is declared by the AWS SDK: the provider reads and sets its
  \<open>Bucket\<close>, a pointer to a string; its other fields are carried as they were decoded.
\<close>

record CreateBucketInput =
  Bucket :: "string option"
  OtherFields :: string

text \<open>The \<open>aws.Config\<close> a session is made of: the region and the static credentials.\<close>

record aws_Config =
  cfg_Region :: string
  cfg_AccessKeyID :: string
  cfg_SecretAccessKey :: string

record BlobStorageDeploymentDetails =
  BucketName :: string
  CredentialKeyID :: string
  CredentialSecretKey :: string

record BlobStorageInstance =
  DeploymentDetails :: BlobStorageDeploymentDetails

definition dataBucketName :: string where
  "dataBucketName = ''bucketName''"

definition dataCredentialKeyID :: string where
  "dataCredentialKeyID = ''credentialKeyID''"

definition dataCredentialSecretKey :: string where
  "dataCredentialSecretKey = ''credentialSecretKey''"

definition Data_of :: "BlobStorageDeploymentDetails \<Rightarrow> (string \<rightharpoonup> string)" where
  "Data_of d =
     [dataBucketName \<mapsto> BucketName d,
      dataCredentialKeyID \<mapsto> CredentialKeyID d,
      dataCredentialSecretKey \<mapsto> CredentialSecretKey d]"

subsection \<open>The provider's collaborators\<close>

text \<open>
  Everything the provider calls lies outside the files at hand: the Kubernetes client,
  the configuration manager and the credential manager of its struct, the AWS SDK
  (session, S3 service), \<open>json.Unmarshal\<close> into the SDK's \<open>CreateBucketInput\<close>, and
  the package constants \<open>DefaultFinalizer\<close> and \<open>DefaultRegion\<close>. They are parameters
  here: one record holds, for one invocation of the provider, the answer each call gets
  as a function of its arguments. \<open>ListBuckets\<close> is called repeatedly, so its answer
  also depends on the time of the attempt, in seconds since the poll began; a listing is
  the list of the buckets' names (the SDK hands them out behind pointers, taken not to
  be nil). An answer \<open>None\<close> of a call that returns only an error is Go's \<open>nil\<close>.

  The Kubernetes client writes the server's copy of the object back into the request on
  \<open>Update\<close>; the model leaves the request as the provider sent it. Logging is left out.
\<close>

record BlobStorageProvider =
  Client_Update :: "v1alpha1_BlobStorage \<Rightarrow> error option"
  Client_Delete :: "string \<Rightarrow> string \<Rightarrow> error option"
  ReadBlobStorageStrategy :: "string \<Rightarrow> error + StrategyConfig"
  ReoncileBucketOwnerCredentials :: "string \<Rightarrow> string \<Rightarrow> string \<Rightarrow> error + AWSCredentials"
  ReconcileProviderCredentials :: "string \<Rightarrow> error + AWSCredentials"
  NewSession :: "aws_Config \<Rightarrow> error option"
  ListBuckets :: "aws_Config \<Rightarrow> nat \<Rightarrow> error + string list"
  CreateBucket :: "aws_Config \<Rightarrow> CreateBucketInput \<Rightarrow> error option"
  DeleteBucket :: "aws_Config \<Rightarrow> string \<Rightarrow> error option"
  WaitUntilBucketNotExists :: "aws_Config \<Rightarrow> string \<Rightarrow> error option"
  Unmarshal_CreateBucketInput :: "string \<Rightarrow> error + CreateBucketInput"
  DefaultFinalizer :: string
  DefaultRegion :: string

text \<open>
  The calls the provider issues, in the order it issues them. \<open>E_Update\<close> and
  \<open>E_Delete\<close> go to the Kubernetes client (the request to persist; the name and
  namespace of the credentials request to delete), the others to the configuration
  manager, the credential manager and S3.
\<close>

datatype event =
    E_Update v1alpha1_BlobStorage
  | E_Delete string string
  | E_ReadBlobStorageStrategy string
  | E_ReoncileBucketOwnerCredentials string string string
  | E_ReconcileProviderCredentials string
  | E_ListBuckets aws_Config nat
  | E_CreateBucket aws_Config CreateBucketInput
  | E_DeleteBucket aws_Config string
  | E_WaitUntilBucketNotExists aws_Config string

subsection \<open>Finalizers\<close>

text \<open>
  Modelled from the spec: \<open>resources.AddFinalizer\<close> and \<open>resources.RemoveFinalizer\<close>
  are not among the files at hand. The spec has the provider "add a provider-specific
  finalizer marker" to the request's marker list and "remove the finalizer marker".
\<close>

definition AddFinalizer :: "string list \<Rightarrow> string \<Rightarrow> string list" where
  "AddFinalizer fs f = (if f \<in> set fs then fs else fs @ [f])"

definition RemoveFinalizer :: "string list \<Rightarrow> string \<Rightarrow> string list" where
  "RemoveFinalizer fs f = filter (\<lambda>x. x \<noteq> f) fs"

subsection \<open>Polling\<close>

text \<open>
  \<open>wait.PollImmediate(interval, timeout, condition)\<close> belongs to the Kubernetes
  library. It is modelled on a clock that counts seconds, on which running the
  condition takes no time: the condition runs at once, and then again after every
  interval for as long as the time elapsed does not exceed the timeout; the run at the
  deadline stands for the library's last run when the timeout fires. A condition
  answers an error (the poll stops with it), not done (\<open>Inr None\<close>) or done with what it
  captured. The result comes with the times at which the condition ran.
\<close>

definition Second :: nat where
  "Second = 1"

definition Minute :: nat where
  "Minute = 60 * Second"

fun poll_ticks :: "nat \<Rightarrow> nat \<Rightarrow> nat \<Rightarrow> (nat \<Rightarrow> error + 'a option) \<Rightarrow> (error + 'a) \<times> nat list" where
  "poll_ticks 0 interval now condition = (Inl ErrWaitTimeout, [])"
| "poll_ticks (Suc n) interval now condition =
     (case condition (now + interval) of
        Inl err \<Rightarrow> (Inl err, [now + interval])
      | Inr (Some x) \<Rightarrow> (Inr x, [now + interval])
      | Inr None \<Rightarrow>
          (case poll_ticks n interval (now + interval) condition of
             (r, ts) \<Rightarrow> (r, (now + interval) # ts)))"

definition PollImmediate :: "nat \<Rightarrow> nat \<Rightarrow> (nat \<Rightarrow> error + 'a option) \<Rightarrow> (error + 'a) \<times> nat list" where
  "PollImmediate interval timeout condition =
     (case condition 0 of
        Inl err \<Rightarrow> (Inl err, [0])
      | Inr (Some x) \<Rightarrow> (Inr x, [0])
      | Inr None \<Rightarrow>
          (case poll_ticks (timeout div interval) interval 0 condition of
             (r, ts) \<Rightarrow> (r, 0 # ts)))"

subsection \<open>getS3BucketConfig\<close>

definition getS3BucketConfig ::
  "BlobStorageProvider \<Rightarrow> v1alpha1_BlobStorage \<Rightarrow> error + (CreateBucketInput \<times> StrategyConfig)" where
  "getS3BucketConfig p bs =
     (case ReadBlobStorageStrategy p (Tier bs) of
        Inl err \<Rightarrow> Inl (WithMessage err ''failed to read aws strategy config'')
      | Inr stratCfg0 \<Rightarrow>
          (let stratCfg =
                 (if Region stratCfg0 = [] then stratCfg0\<lparr>Region := DefaultRegion p\<rparr> else stratCfg0)
           in case Unmarshal_CreateBucketInput p (RawStrategy stratCfg) of
                Inl err \<Rightarrow> Inl (WithMessage err ''failed to unmarshal aws s3 configuration'')
              | Inr s3cbi \<Rightarrow> Inr (s3cbi, stratCfg)))"

subsection \<open>CreateStorage and DeleteStorage\<close>

text \<open>
  The bucket the provider works on: the one the strategy names, or else
  \<open>fmt.Sprintf("%s-%s", bs.Namespace, bs.Name)\<close>; and the name of the end-user
  credentials, \<open>fmt.Sprintf("cloud-resources-aws-s3-%s-credentials", bs.Name)\<close>.
\<close>

definition bucket_of :: "v1alpha1_BlobStorage \<Rightarrow> CreateBucketInput \<Rightarrow> string" where
  "bucket_of bs cfg = (case Bucket cfg of None \<Rightarrow> Namespace bs @ ''-'' @ Name bs | Some b \<Rightarrow> b)"

definition endUserCredsName :: "v1alpha1_BlobStorage \<Rightarrow> string" where
  "endUserCredsName bs = ''cloud-resources-aws-s3-'' @ Name bs @ ''-credentials''"

definition new_session :: "StrategyConfig \<Rightarrow> AWSCredentials \<Rightarrow> aws_Config" where
  "new_session stratCfg providerCreds =
     \<lparr>cfg_Region = Region stratCfg, cfg_AccessKeyID = AccessKeyID providerCreds,
      cfg_SecretAccessKey = SecretAccessKey providerCreds\<rparr>"

text \<open>
  The condition of the poll in \<open>CreateStorage\<close>: a failed listing is not an error of
  the poll but "not done"; a listing that succeeds is captured.
\<close>

definition list_condition :: "BlobStorageProvider \<Rightarrow> aws_Config \<Rightarrow> nat \<Rightarrow> error + string list option" where
  "list_condition p sess t =
     (case ListBuckets p sess t of Inl err \<Rightarrow> Inr None | Inr buckets \<Rightarrow> Inr (Some buckets))"

text \<open>
  \<open>CreateStorage\<close> returns an instance or an error, or panics (\<open>session.Must\<close>); the
  model returns with it the request as the provider leaves it and the calls issued.
\<close>

definition CreateStorage ::
  "BlobStorageProvider \<Rightarrow> v1alpha1_BlobStorage
     \<Rightarrow> (error + BlobStorageInstance) outcome \<times> v1alpha1_BlobStorage \<times> event list" where
  "CreateStorage p bs0 =
     (let bs = (if DeletionTimestamp bs0 = None
                then bs0\<lparr>Finalizers := AddFinalizer (Finalizers bs0) (DefaultFinalizer p)\<rparr>
                else bs0);
          tr1 = (if DeletionTimestamp bs0 = None then [E_Update bs] else [])
      in case (if DeletionTimestamp bs0 = None then Client_Update p bs else None) of
        Some err \<Rightarrow>
          (Returns (Inl (WithMessage err
             (''failed to add finalizer to blob storage instance '' @ Name bs))), bs, tr1)
      | None \<Rightarrow>
     (let tr2 = tr1 @ [E_ReadBlobStorageStrategy (Tier bs)]
      in case getS3BucketConfig p bs of
        Inl err \<Rightarrow>
          (Returns (Inl (WithMessage err
             (''failed to retrieve aws s3 bucket config for blob storage instance '' @ Name bs))),
           bs, tr2)
      | Inr (cfg0, stratCfg) \<Rightarrow>
     (let bucket = bucket_of bs cfg0;
          bucketCreateCfg = cfg0\<lparr>Bucket := Some bucket\<rparr>;
          tr3 = tr2 @ [E_ReoncileBucketOwnerCredentials (endUserCredsName bs) (Namespace bs) bucket]
      in case ReoncileBucketOwnerCredentials p (endUserCredsName bs) (Namespace bs) bucket of
        Inl err \<Rightarrow>
          (Returns (Inl (WithMessage err
             (''failed to reconcile s3 end-user credentials for blob storage instance '' @ Name bs))),
           bs, tr3)
      | Inr endUserCreds \<Rightarrow>
     (let tr4 = tr3 @ [E_ReconcileProviderCredentials (Namespace bs)]
      in case ReconcileProviderCredentials p (Namespace bs) of
        Inl err \<Rightarrow>
          (Returns (Inl (WithMessage err
             (''failed to reconcile aws blob storage provider credentials for blob storage instance ''
              @ Name bs))),
           bs, tr4)
      | Inr providerCreds \<Rightarrow>
     (let sess = new_session stratCfg providerCreds
      in case NewSession p sess of
        Some err \<Rightarrow> (Panics (PanicError err), bs, tr4)
      | None \<Rightarrow>
     (case PollImmediate (Second * 5) (Minute * 5) (list_condition p sess) of
        (polled, attempts) \<Rightarrow>
     (let tr5 = tr4 @ map (E_ListBuckets sess) attempts
      in case polled of
        Inl err \<Rightarrow>
          (Returns (Inl (WithMessage err
             (''timed out waiting to list s3 buckets, searching for blob storage instance ''
              @ Name bs))),
           bs, tr5)
      | Inr existingBuckets \<Rightarrow>
     (let bsi = \<lparr>DeploymentDetails =
                  \<lparr>BucketName = bucket, CredentialKeyID = AccessKeyID endUserCreds,
                   CredentialSecretKey = SecretAccessKey endUserCreds\<rparr>\<rparr>
      in case find (\<lambda>b. b = bucket) existingBuckets of
        Some foundBucket \<Rightarrow> (Returns (Inr bsi), bs, tr5)
      | None \<Rightarrow>
     (let tr6 = tr5 @ [E_CreateBucket sess bucketCreateCfg]
      in case CreateBucket p sess bucketCreateCfg of
        Some err \<Rightarrow>
          (Returns (Inl (WithMessage err
             (''failed to create s3 bucket '' @ bucket @ '', for blob storage instance '' @ Name bs))),
           bs, tr6)
      | None \<Rightarrow> (Returns (Inr bsi), bs, tr6))))))))))"

definition ErrCodeNoSuchBucket :: string where
  "ErrCodeNoSuchBucket = ''NoSuchBucket''"

text \<open>
  The type assertion \<open>err.(awserr.Error)\<close> with the error's code, and what the two
  tests after \<open>DeleteBucket\<close> return: the error to give up with, or \<open>None\<close> to go on.
\<close>

definition awserr_Code :: "error \<Rightarrow> string option" where
  "awserr_Code err = (case err of AWSError code message \<Rightarrow> Some code | _ \<Rightarrow> None)"

definition delete_failure :: "string \<Rightarrow> error option \<Rightarrow> error option" where
  "delete_failure bucket r =
     (case r of
        None \<Rightarrow> None
      | Some err \<Rightarrow>
          (case awserr_Code err of
             None \<Rightarrow> Some (WithMessage err (''failed to delete s3 bucket '' @ bucket))
           | Some code \<Rightarrow>
               if code \<noteq> ErrCodeNoSuchBucket
               then Some (WithMessage err (''failed to delete aws s3 bucket '' @ bucket @ '', aws error''))
               else None))"

definition DeleteStorage ::
  "BlobStorageProvider \<Rightarrow> v1alpha1_BlobStorage
     \<Rightarrow> error option outcome \<times> v1alpha1_BlobStorage \<times> event list" where
  "DeleteStorage p bs =
     (let tr1 = [E_ReadBlobStorageStrategy (Tier bs)]
      in case getS3BucketConfig p bs of
        Inl err \<Rightarrow>
          (Returns (Some (WithMessage err
             (''failed to retrieve aws s3 bucket config for blob storage instance '' @ Name bs))),
           bs, tr1)
      | Inr (cfg0, stratCfg) \<Rightarrow>
     (let bucket = bucket_of bs cfg0;
          tr2 = tr1 @ [E_ReconcileProviderCredentials (Namespace bs)]
      in case ReconcileProviderCredentials p (Namespace bs) of
        Inl err \<Rightarrow>
          (Returns (Some (WithMessage err
             (''failed to reconcile aws provider credentials for blob storage instance '' @ Name bs))),
           bs, tr2)
      | Inr providerCreds \<Rightarrow>
     (let sess = new_session stratCfg providerCreds
      in case NewSession p sess of
        Some err \<Rightarrow> (Panics (PanicError err), bs, tr2)
      | None \<Rightarrow>
     (let tr3 = tr2 @ [E_DeleteBucket sess bucket]
      in case delete_failure bucket (DeleteBucket p sess bucket) of
        Some failure \<Rightarrow> (Returns (Some failure), bs, tr3)
      | None \<Rightarrow>
     (let tr4 = tr3 @ [E_WaitUntilBucketNotExists sess bucket]
      in case WaitUntilBucketNotExists p sess bucket of
        Some err \<Rightarrow>
          (Returns (Some (WithMessage err (''failed to wait for s3 bucket deletion, '' @ bucket))),
           bs, tr4)
      | None \<Rightarrow>
     (let tr5 = tr4 @ [E_Delete (endUserCredsName bs) (Namespace bs)]
      in case Client_Delete p (endUserCredsName bs) (Namespace bs) of
        Some err \<Rightarrow>
          (Returns (Some (WithMessage err
             (''failed to delete credential request '' @ endUserCredsName bs))),
           bs, tr5)
      | None \<Rightarrow>
     (let bs' = bs\<lparr>Finalizers := RemoveFinalizer (Finalizers bs) (DefaultFinalizer p)\<rparr>;
          tr6 = tr5 @ [E_Update bs']
      in case Client_Update p bs' of
        Some err \<Rightarrow>
          (Returns (Some (WithMessage err
             (''failed to update instance '' @ Name bs @ '' as part of finalizer reconcile''))),
           bs', tr6)
      | None \<Rightarrow> (Returns None, bs', tr6))))))))"

text \<open>The three components of what a call of the provider gives.\<close>

definition result :: "'a \<times> 'b \<times> 'c \<Rightarrow> 'a" where
  "result x = fst x"

definition request :: "'a \<times> 'b \<times> 'c \<Rightarrow> 'b" where
  "request x = fst (snd x)"

definition events :: "'a \<times> 'b \<times> 'c \<Rightarrow> 'c" where
  "events x = snd (snd x)"

subsection \<open>Names for the stages of CreateStorage\<close>

text \<open>
  For the statements below: the request as \<open>CreateStorage\<close> leaves it, the answer to
  its update, the calls issued up to the poll, and the instance returned.
\<close>

definition finalized :: "BlobStorageProvider \<Rightarrow> v1alpha1_BlobStorage \<Rightarrow> v1alpha1_BlobStorage" where
  "finalized p bs =
     (if DeletionTimestamp bs = None
      then bs\<lparr>Finalizers := AddFinalizer (Finalizers bs) (DefaultFinalizer p)\<rparr> else bs)"

definition persisted :: "BlobStorageProvider \<Rightarrow> v1alpha1_BlobStorage \<Rightarrow> error option" where
  "persisted p bs = (if DeletionTimestamp bs = None then Client_Update p (finalized p bs) else None)"

definition update_events :: "BlobStorageProvider \<Rightarrow> v1alpha1_BlobStorage \<Rightarrow> event list" where
  "update_events p bs = (if DeletionTimestamp bs = None then [E_Update (finalized p bs)] else [])"

definition setup_events ::
  "BlobStorageProvider \<Rightarrow> v1alpha1_BlobStorage \<Rightarrow> CreateBucketInput \<Rightarrow> event list" where
  "setup_events p bs cfg0 =
     update_events p bs @
     [E_ReadBlobStorageStrategy (Tier bs),
      E_ReoncileBucketOwnerCredentials (endUserCredsName bs) (Namespace bs) (bucket_of bs cfg0),
      E_ReconcileProviderCredentials (Namespace bs)]"

definition instance_of :: "string \<Rightarrow> AWSCredentials \<Rightarrow> BlobStorageInstance" where
  "instance_of bucket endUserCreds =
     \<lparr>DeploymentDetails =
        \<lparr>BucketName = bucket, CredentialKeyID = AccessKeyID endUserCreds,
         CredentialSecretKey = SecretAccessKey endUserCreds\<rparr>\<rparr>"

subsection \<open>A simulated cluster\<close>

text \<open>
  Concrete collaborators, for running the provider on concrete requests: buckets and
  credentials requests are kept in lists, a listing fails until the provider's access
  key is known to S3 (\<open>sim_ready\<close> seconds), deleting a bucket or a credentials
  request that does not exist is answered with an error, as S3 and the Kubernetes client
  do. \<open>effect\<close> is what a call changes in the cluster.
\<close>

record cluster =
  sim_buckets :: "string list"
  sim_requests :: "(string \<times> string) list"
  sim_region :: string
  sim_ready :: nat

definition simulated :: "cluster \<Rightarrow> BlobStorageProvider" where
  "simulated c =
     \<lparr>Client_Update = (\<lambda>bs. None),
      Client_Delete = (\<lambda>name namespace.
        if (name, namespace) \<in> set (sim_requests c) then None
        else Some (ErrorString (''credentialsrequests '' @ name @ '' not found''))),
      ReadBlobStorageStrategy = (\<lambda>tier. Inr \<lparr>Region = sim_region c, RawStrategy = ''{}''\<rparr>),
      ReoncileBucketOwnerCredentials = (\<lambda>name namespace bucket.
        Inr \<lparr>AccessKeyID = ''key-'' @ name, SecretAccessKey = ''secret-'' @ name\<rparr>),
      ReconcileProviderCredentials = (\<lambda>namespace.
        Inr \<lparr>AccessKeyID = ''key-provider'', SecretAccessKey = ''secret-provider''\<rparr>),
      NewSession = (\<lambda>sess. None),
      ListBuckets = (\<lambda>sess t.
        if t < sim_ready c then Inl (AWSError ''InvalidAccessKeyId'' ''unknown access key'')
        else Inr (sim_buckets c)),
      CreateBucket = (\<lambda>sess input.
        case Bucket input of
          None \<Rightarrow> Some (AWSError ''InvalidBucketName'' ''no bucket name'')
        | Some b \<Rightarrow>
            if b \<in> set (sim_buckets c)
            then Some (AWSError ''BucketAlreadyOwnedByYou'' ''the bucket exists'') else None),
      DeleteBucket = (\<lambda>sess bucket.
        if bucket \<in> set (sim_buckets c) then None
        else Some (AWSError ''NoSuchBucket'' ''the specified bucket does not exist'')),
      WaitUntilBucketNotExists = (\<lambda>sess bucket. None),
      Unmarshal_CreateBucketInput = (\<lambda>raw. Inr \<lparr>Bucket = None, OtherFields = raw\<rparr>),
      DefaultFinalizer = ''finalizers.cloud-resources-operator.integreatly.org'',
      DefaultRegion = ''us-east-1''\<rparr>"

definition effect :: "event \<Rightarrow> cluster \<Rightarrow> cluster" where
  "effect e c =
     (case e of
        E_ReoncileBucketOwnerCredentials name namespace bucket \<Rightarrow>
          c\<lparr>sim_requests := List.insert (name, namespace) (sim_requests c)\<rparr>
      | E_Delete name namespace \<Rightarrow>
          c\<lparr>sim_requests := removeAll (name, namespace) (sim_requests c)\<rparr>
      | E_CreateBucket sess input \<Rightarrow>
          (case Bucket input of
             None \<Rightarrow> c
           | Some b \<Rightarrow> c\<lparr>sim_buckets := List.insert b (sim_buckets c)\<rparr>)
      | E_DeleteBucket sess bucket \<Rightarrow> c\<lparr>sim_buckets := removeAll bucket (sim_buckets c)\<rparr>
      | _ \<Rightarrow> c)"

definition after :: "event list \<Rightarrow> cluster \<Rightarrow> cluster" where
  "after tr c = fold effect tr c"

definition empty_cluster :: cluster where
  "empty_cluster = \<lparr>sim_buckets = [], sim_requests = [], sim_region = [], sim_ready = 10\<rparr>"

definition store_request :: v1alpha1_BlobStorage where
  "store_request =
     \<lparr>Name = ''store'', Namespace = ''ns1'', Tier = ''production'', DeletionTimestamp = None,
      Finalizers = []\<rparr>"

definition first_create ::
  "(error + BlobStorageInstance) outcome \<times> v1alpha1_BlobStorage \<times> event list" where
  "first_create = CreateStorage (simulated empty_cluster) store_request"

definition created_cluster :: cluster where
  "created_cluster = after (events first_create) empty_cluster"

definition second_create ::
  "(error + BlobStorageInstance) outcome \<times> v1alpha1_BlobStorage \<times> event list" where
  "second_create = CreateStorage (simulated created_cluster) (request first_create)"

definition store_session :: aws_Config where
  "store_session =
     \<lparr>cfg_Region = ''us-east-1'', cfg_AccessKeyID = ''key-provider'',
      cfg_SecretAccessKey = ''secret-provider''\<rparr>"

definition store_instance :: BlobStorageInstance where
  "store_instance =
     \<lparr>DeploymentDetails =
        \<lparr>BucketName = ''ns1-store'',
         CredentialKeyID = ''key-cloud-resources-aws-s3-store-credentials'',
         CredentialSecretKey = ''secret-cloud-resources-aws-s3-store-credentials''\<rparr>\<rparr>"

text \<open>The times of the listing attempts in a trace, and a cluster whose listings keep failing.\<close>

definition list_times :: "event list \<Rightarrow> nat list" where
  "list_times tr = concat (map (\<lambda>e. case e of E_ListBuckets sess t \<Rightarrow> [t] | _ \<Rightarrow> []) tr)"

definition never_ready :: cluster where
  "never_ready = \<lparr>sim_buckets = [], sim_requests = [], sim_region = [], sim_ready = 1000\<rparr>"

subsection \<open>Names for the stages of DeleteStorage\<close>

text \<open>
  The request as \<open>DeleteStorage\<close> leaves it when it gets as far as the finalizer, and
  the calls it issues up to the deletion of the bucket.
\<close>

definition released :: "BlobStorageProvider \<Rightarrow> v1alpha1_BlobStorage \<Rightarrow> v1alpha1_BlobStorage" where
  "released p bs = bs\<lparr>Finalizers := RemoveFinalizer (Finalizers bs) (DefaultFinalizer p)\<rparr>"

definition delete_events :: "v1alpha1_BlobStorage \<Rightarrow> aws_Config \<Rightarrow> string \<Rightarrow> event list" where
  "delete_events bs sess bucket =
     [E_ReadBlobStorageStrategy (Tier bs), E_ReconcileProviderCredentials (Namespace bs),
      E_DeleteBucket sess bucket]"







text \<open>The bucket a call names, for the calls that name one.\<close>

definition event_bucket :: "event \<Rightarrow> string option" where
  "event_bucket e =
     (case e of
        E_ReoncileBucketOwnerCredentials name namespace bucket \<Rightarrow> Some bucket
      | E_CreateBucket sess input \<Rightarrow> Bucket input
      | E_DeleteBucket sess bucket \<Rightarrow> Some bucket
      | E_WaitUntilBucketNotExists sess bucket \<Rightarrow> Some bucket
      | _ \<Rightarrow> None)"

section \<open>Theorems\<close>

subsection \<open>The configuration manager\<close>

lemma json_Unmarshal_managed_seed:
  "json_Unmarshal managed_seed =
     Inr \<lparr>BlobStorage = ''aws'', SMTPCredentials = ''aws'', Redis = ''aws'', Postgres = ''aws''\<rparr>"
  by code_simp

lemma json_Unmarshal_workshop_seed:
  "json_Unmarshal workshop_seed =
     Inr \<lparr>BlobStorage = ''aws'', SMTPCredentials = ''aws'', Redis = ''openshift'',
          Postgres = ''openshift''\<rparr>"
  by code_simp

text \<open>
  C5. When the Strategy Store has no entry (the client answers \<open>NotFound\<close> for the
  manager's config map), \<open>GetStrategyMappingForDeploymentType\<close> returns the seeded
  defaults without error: for "managed" all four kinds map to "aws"; for "workshop"
  BlobStorage and SMTPCredentials map to "aws", Redis and Postgres to "openshift".
\<close>

theorem GetStrategyMapping_seeded_defaults:
  assumes "client m (providerConfigMapName m) (providerConfigMapNamespace m) = NotFound"
  shows "GetStrategyMappingForDeploymentType m ''managed'' =
           Inr \<lparr>BlobStorage = ''aws'', SMTPCredentials = ''aws'', Redis = ''aws'',
                Postgres = ''aws''\<rparr>
         \<and> GetStrategyMappingForDeploymentType m ''workshop'' =
           Inr \<lparr>BlobStorage = ''aws'', SMTPCredentials = ''aws'', Redis = ''openshift'',
                Postgres = ''openshift''\<rparr>"
  using assms
  by (simp add: GetStrategyMappingForDeploymentType_def GetConfigMapOrDefault_def
      buildDefaultConfigMap_def map_index_def json_Unmarshal_managed_seed
      json_Unmarshal_workshop_seed)

theorem GetStrategyMapping_seeded_defaults_witness:
  "client (NewConfigManager [] [] (\<lambda>name namespace. NotFound))
       (providerConfigMapName (NewConfigManager [] [] (\<lambda>name namespace. NotFound)))
       (providerConfigMapNamespace (NewConfigManager [] [] (\<lambda>name namespace. NotFound))) = NotFound
   \<and> GetStrategyMappingForDeploymentType (NewConfigManager [] [] (\<lambda>name namespace. NotFound)) ''managed'' =
       Inr \<lparr>BlobStorage = ''aws'', SMTPCredentials = ''aws'', Redis = ''aws'', Postgres = ''aws''\<rparr>
   \<and> GetStrategyMappingForDeploymentType (NewConfigManager [] [] (\<lambda>name namespace. NotFound)) ''workshop'' =
       Inr \<lparr>BlobStorage = ''aws'', SMTPCredentials = ''aws'', Redis = ''openshift'',
            Postgres = ''openshift''\<rparr>"
  using GetStrategyMapping_seeded_defaults [of "NewConfigManager [] [] (\<lambda>name namespace. NotFound)"]
  by (simp add: NewConfigManager_def)

lemma decode_members_saved:
  "snd (decode_members ms d saved) =
     (case saved of Some e \<Rightarrow> Some e | None \<Rightarrow> (case type_errors ms of [] \<Rightarrow> None | e # es \<Rightarrow> Some e))"
proof (induction ms arbitrary: d saved)
  case Nil
  then show ?case by (simp add: type_errors_def List.map_filter_simps split: option.splits)
next
  case (Cons a ms)
  obtain k v where a: "a = (k, v)" by (cases a)
  show ?case
    unfolding a
    by (cases "findField k"; cases v)
       (simp_all add: Cons.IH type_errors_def List.map_filter_simps storable_def saveError_def
          split: option.splits list.splits)
qed

lemma getField_setField:
  "getField f (setField g s d) = (if f = g then s else getField f d)"
  by (cases f; cases g) (simp_all add: getField_def setField_def)

lemma decode_members_field:
  "getField f (fst (decode_members ms d saved)) =
     (if stored_values f ms = [] then getField f d else last (stored_values f ms))"
proof (induction ms arbitrary: d saved)
  case Nil
  then show ?case by (simp add: stored_values_def List.map_filter_simps)
next
  case (Cons a ms)
  obtain k v where a: "a = (k, v)" by (cases a)
  show ?case
    unfolding a
    by (cases "findField k"; cases v)
       (auto simp add: Cons.IH stored_values_def List.map_filter_simps getField_setField)
qed

lemma mapping_eq:
  "d = \<lparr>BlobStorage = getField F_BlobStorage d, SMTPCredentials = getField F_SMTPCredentials d,
        Redis = getField F_Redis d, Postgres = getField F_Postgres d\<rparr>"
  by (simp add: getField_def)

lemma getField_zero: "getField f zero_DeploymentStrategyMapping = []"
  by (cases f) (simp_all add: getField_def zero_DeploymentStrategyMapping_def)

lemma json_Unmarshal_object:
  assumes "json_parse data = Some (JObject ms)"
  shows "json_Unmarshal data =
           (case type_errors ms of
              e # es \<Rightarrow> Inl e
            | [] \<Rightarrow>
                Inr \<lparr>BlobStorage = stored_value F_BlobStorage ms,
                     SMTPCredentials = stored_value F_SMTPCredentials ms,
                     Redis = stored_value F_Redis ms,
                     Postgres = stored_value F_Postgres ms\<rparr>)"
proof -
  obtain d saved where dm: "decode_members ms zero_DeploymentStrategyMapping None = (d, saved)"
    by (cases "decode_members ms zero_DeploymentStrategyMapping None")
  have s: "saved = (case type_errors ms of [] \<Rightarrow> None | e # es \<Rightarrow> Some e)"
    using decode_members_saved [of ms zero_DeploymentStrategyMapping None] dm by simp
  have f: "getField f d = stored_value f ms" for f
    using decode_members_field [of f ms zero_DeploymentStrategyMapping None] dm
    by (simp add: stored_value_def getField_zero)
  have d: "d = \<lparr>BlobStorage = stored_value F_BlobStorage ms,
                 SMTPCredentials = stored_value F_SMTPCredentials ms,
                 Redis = stored_value F_Redis ms,
                 Postgres = stored_value F_Postgres ms\<rparr>"
    using mapping_eq [of d] by (simp add: f)
  show ?thesis
    using assms dm s d by (simp add: json_Unmarshal_def split: list.splits)
qed


lemma json_parse_partial_document:
  "json_parse partial_document = Some (JObject [(''blobstorage'', JString ''aws'')])"
  by code_simp

text \<open>
  C6, as the claim states it, fails: for the stored document \<open>{"blobstorage":"aws"}\<close>
  the lookup returns a mapping without error, and three of its fields are empty.
\<close>

theorem GetStrategyMapping_missing_fields_counterexample:
  "GetStrategyMappingForDeploymentType partial_manager ''managed'' =
     Inr \<lparr>BlobStorage = ''aws'', SMTPCredentials = [], Redis = [], Postgres = []\<rparr>"
  by code_simp

text \<open>
  C6, amended. When the stored document for the deployment type is a JSON object, the
  lookup fails only on a member that belongs to one of the four fields and holds
  neither a string nor null; otherwise it returns a mapping in which each field holds
  the last string the document stores under that field's key, and the empty string when
  the document stores none. A document missing fields does not make the lookup fail.
\<close>

theorem GetStrategyMapping_object_document:
  assumes "GetConfigMapOrDefault (client m) (providerConfigMapName m) (providerConfigMapNamespace m)
             (buildDefaultConfigMap m) = Inr cm"
    and "json_parse (map_index (Data cm) t) = Some (JObject ms)"
  shows "GetStrategyMappingForDeploymentType m t =
           (case type_errors ms of
              e # es \<Rightarrow> Inl (WithMessage e (''failed to unmarshal config for deployment type '' @ t))
            | [] \<Rightarrow>
                Inr \<lparr>BlobStorage = stored_value F_BlobStorage ms,
                     SMTPCredentials = stored_value F_SMTPCredentials ms,
                     Redis = stored_value F_Redis ms,
                     Postgres = stored_value F_Postgres ms\<rparr>)"
  using assms(1) json_Unmarshal_object [OF assms(2)]
  by (simp add: GetStrategyMappingForDeploymentType_def split: list.splits)

theorem GetStrategyMapping_object_document_witness:
  "GetConfigMapOrDefault (client partial_manager) (providerConfigMapName partial_manager)
       (providerConfigMapNamespace partial_manager) (buildDefaultConfigMap partial_manager)
     = Inr partial_configmap
   \<and> json_parse (map_index (Data partial_configmap) ''managed'')
     = Some (JObject [(''blobstorage'', JString ''aws'')])
   \<and> GetStrategyMappingForDeploymentType partial_manager ''managed'' =
       Inr \<lparr>BlobStorage = ''aws'', SMTPCredentials = [], Redis = [], Postgres = []\<rparr>"
proof -
  have a: "GetConfigMapOrDefault (client partial_manager) (providerConfigMapName partial_manager)
       (providerConfigMapNamespace partial_manager) (buildDefaultConfigMap partial_manager)
     = Inr partial_configmap"
    by (simp add: partial_manager_def NewConfigManager_def GetConfigMapOrDefault_def)
  have b: "json_parse (map_index (Data partial_configmap) ''managed'')
     = Some (JObject [(''blobstorage'', JString ''aws'')])"
    by (simp add: partial_configmap_def map_index_def json_parse_partial_document)
  have c: "type_errors [(''blobstorage'', JString ''aws'')] = []"
    by code_simp
  have d: "stored_value F_BlobStorage [(''blobstorage'', JString ''aws'')] = ''aws''"
    "stored_value F_SMTPCredentials [(''blobstorage'', JString ''aws'')] = []"
    "stored_value F_Redis [(''blobstorage'', JString ''aws'')] = []"
    "stored_value F_Postgres [(''blobstorage'', JString ''aws'')] = []"
    by code_simp+
  show ?thesis
    using GetStrategyMapping_object_document [OF a b] a b by (simp add: c d)
qed

subsection \<open>Provider names\<close>

text \<open>
  C7, as the claim states it, fails for the azure provider: its \<open>SupportsStrategy\<close>
  does not answer true exactly for the name its \<open>GetName\<close> returns (it answers
  false for that name, and true for "azure").
\<close>

theorem SupportsStrategy_GetName_counterexample:
  "\<not> (\<forall>s. PostgresProvider_SupportsStrategy s = (s = PostgresProvider_GetName))"
proof
  assume "\<forall>s. PostgresProvider_SupportsStrategy s = (s = PostgresProvider_GetName)"
  then have "PostgresProvider_SupportsStrategy ''azure'' = (''azure'' = PostgresProvider_GetName)"
    by blast
  then show False
    by (simp add: PostgresProvider_SupportsStrategy_def PostgresProvider_GetName_def)
qed

text \<open>
  C7, amended. Each provider's \<open>SupportsStrategy\<close> answers true for exactly one
  string. For the AWS blob storage provider that string is the name its \<open>GetName\<close>
  returns; for the azure Postgres provider it is "azure", while its \<open>GetName\<close>
  returns the display name "Azure Postgres Provider".
\<close>

theorem SupportsStrategy_one_name:
  "BlobStorageProvider_SupportsStrategy d = (d = BlobStorageProvider_GetName)
   \<and> PostgresProvider_SupportsStrategy d = (d = ''azure'')
   \<and> PostgresProvider_GetName = ''Azure Postgres Provider''"
  by (simp add: BlobStorageProvider_SupportsStrategy_def BlobStorageProvider_GetName_def
      PostgresProvider_SupportsStrategy_def PostgresProvider_GetName_def)

subsection \<open>The azure Postgres provider\<close>

text \<open>
  C10. For every request, \<open>DeletePostgres\<close> of the azure provider panics with
  the message "implement me": it returns neither a status message nor an error.
\<close>

theorem DeletePostgres_panics:
  "DeletePostgres ps = Panics (PanicString ''implement me'') \<and> (\<forall>r. DeletePostgres ps \<noteq> Returns r)"
  by (simp add: DeletePostgres_def)

subsection \<open>The AWS blob storage provider\<close>

lemma getS3BucketConfig_Finalizers [simp]:
  "getS3BucketConfig p (bs\<lparr>Finalizers := fs\<rparr>) = getS3BucketConfig p bs"
  by (simp add: getS3BucketConfig_def)

text \<open>
  C8. When the region of the strategy read for the request's tier is the empty string,
  the region of the strategy \<open>getS3BucketConfig\<close> resolves is the provider's default
  region; a region that is not empty is kept as it is.
\<close>

theorem getS3BucketConfig_region:
  assumes "ReadBlobStorageStrategy p (Tier bs) = Inr payload"
    and "getS3BucketConfig p bs = Inr (s3cbi, stratCfg)"
  shows "Region stratCfg = (if Region payload = [] then DefaultRegion p else Region payload)
         \<and> RawStrategy stratCfg = RawStrategy payload"
  using assms
  by (auto simp add: getS3BucketConfig_def Let_def split: sum.splits if_splits)

lemma poll_ticks_attempts:
  "snd (poll_ticks n interval now condition)
     = map (\<lambda>k. now + (k + 1) * interval) [0..<length (snd (poll_ticks n interval now condition))]
   \<and> length (snd (poll_ticks n interval now condition)) \<le> n"
proof (induction n arbitrary: now)
  case 0
  then show ?case by simp
next
  case (Suc n)
  show ?case
  proof (cases "condition (now + interval)")
    case (Inl e)
    then show ?thesis by simp
  next
    case (Inr r)
    show ?thesis
    proof (cases r)
      case (Some x)
      with Inr show ?thesis by simp
    next
      case None
      obtain r' ts where pt: "poll_ticks n interval (now + interval) condition = (r', ts)"
        by (cases "poll_ticks n interval (now + interval) condition")
      from Suc.IH [of "now + interval"] pt
      have ts: "ts = map (\<lambda>k. now + interval + (k + 1) * interval) [0..<length ts]" and len: "length ts \<le> n"
        by simp_all
      have "map (\<lambda>k. now + (k + 1) * interval) [0..<Suc (length ts)]
            = (now + interval) # map (\<lambda>k. now + (k + 1) * interval) (map Suc [0..<length ts])"
        by (simp only: upt_conv_Cons [of 0] map_Suc_upt [symmetric]) simp
      also have "\<dots> = (now + interval) # map (\<lambda>k. now + interval + (k + 1) * interval) [0..<length ts]"
        by (simp add: algebra_simps)
      also have "\<dots> = (now + interval) # ts"
        using ts by simp
      finally show ?thesis
        using Inr None pt len by simp
    qed
  qed
qed

lemma PollImmediate_attempts:
  "\<exists>n\<le>Suc (timeout div interval).
     snd (PollImmediate interval timeout condition) = map (\<lambda>k. k * interval) [0..<n]"
proof (cases "condition 0")
  case (Inl e)
  then have "snd (PollImmediate interval timeout condition) = map (\<lambda>k. k * interval) [0..<1]"
    by (simp add: PollImmediate_def)
  then show ?thesis by (intro exI [of _ 1]) simp
next
  case (Inr r)
  show ?thesis
  proof (cases r)
    case (Some x)
    with Inr have "snd (PollImmediate interval timeout condition) = map (\<lambda>k. k * interval) [0..<1]"
      by (simp add: PollImmediate_def)
    then show ?thesis by (intro exI [of _ 1]) simp
  next
    case None
    let ?ts = "snd (poll_ticks (timeout div interval) interval 0 condition)"
    have ts: "?ts = map (\<lambda>k. (k + 1) * interval) [0..<length ?ts]" and len: "length ?ts \<le> timeout div interval"
      using poll_ticks_attempts [of "timeout div interval" interval 0 condition] by simp_all
    have "map (\<lambda>k. k * interval) [0..<Suc (length ?ts)]
          = 0 # map (\<lambda>k. k * interval) (map Suc [0..<length ?ts])"
      by (simp only: upt_conv_Cons [of 0] map_Suc_upt [symmetric]) simp
    also have "\<dots> = 0 # map (\<lambda>k. (k + 1) * interval) [0..<length ?ts]"
      by simp
    also have "\<dots> = 0 # ?ts"
      by (simp only: ts [symmetric])
    finally have "snd (PollImmediate interval timeout condition)
                  = map (\<lambda>k. k * interval) [0..<Suc (length ?ts)]"
      using Inr None by (simp add: PollImmediate_def split: prod.splits)
    with len show ?thesis by (intro exI [of _ "Suc (length ?ts)"]) simp
  qed
qed

lemma poll_ticks_done:
  "t \<in> set (snd (poll_ticks n interval now condition)) \<Longrightarrow> condition t = Inr (Some x)
     \<Longrightarrow> fst (poll_ticks n interval now condition) = Inr x"
proof (induction n arbitrary: now)
  case 0
  then show ?case by simp
next
  case (Suc n)
  show ?case
  proof (cases "condition (now + interval)")
    case (Inl e)
    with Suc.prems show ?thesis by auto
  next
    case (Inr r)
    show ?thesis
    proof (cases r)
      case (Some y)
      with Inr Suc.prems show ?thesis by auto
    next
      case None
      obtain r' ts where pt: "poll_ticks n interval (now + interval) condition = (r', ts)"
        by (cases "poll_ticks n interval (now + interval) condition")
      from Suc.prems Inr None pt have "t \<in> set ts"
        by auto
      then have "fst (poll_ticks n interval (now + interval) condition) = Inr x"
        using Suc.IH [of "now + interval"] Suc.prems(2) pt by simp
      then show ?thesis
        using Inr None pt by simp
    qed
  qed
qed

lemma PollImmediate_done:
  "t \<in> set (snd (PollImmediate interval timeout condition)) \<Longrightarrow> condition t = Inr (Some x)
     \<Longrightarrow> fst (PollImmediate interval timeout condition) = Inr x"
  using poll_ticks_done [of t "timeout div interval" interval 0 condition x]
  by (cases "condition 0") (auto simp add: PollImmediate_def split: option.splits prod.splits)

lemma poll_ticks_never_done:
  "(\<forall>k<n. condition (now + (k + 1) * interval) = Inr None)
     \<Longrightarrow> poll_ticks n interval now condition
         = (Inl ErrWaitTimeout, map (\<lambda>k. now + (k + 1) * interval) [0..<n])"
proof (induction n arbitrary: now)
  case 0
  then show ?case by simp
next
  case (Suc n)
  have first: "condition (now + interval) = Inr None"
    using Suc.prems [rule_format, of 0] by simp
  have "\<forall>k<n. condition (now + interval + (k + 1) * interval) = Inr None"
  proof (intro allI impI)
    fix k assume "k < n"
    then show "condition (now + interval + (k + 1) * interval) = Inr None"
      using Suc.prems [rule_format, of "Suc k"] by (simp add: algebra_simps)
  qed
  then have rec: "poll_ticks n interval (now + interval) condition
      = (Inl ErrWaitTimeout, map (\<lambda>k. now + interval + (k + 1) * interval) [0..<n])"
    by (rule Suc.IH)
  have "map (\<lambda>k. now + (k + 1) * interval) [0..<Suc n]
        = (now + interval) # map (\<lambda>k. now + (k + 1) * interval) (map Suc [0..<n])"
    by (simp only: upt_conv_Cons [of 0] map_Suc_upt [symmetric]) simp
  also have "\<dots> = (now + interval) # map (\<lambda>k. now + interval + (k + 1) * interval) [0..<n]"
    by (simp add: algebra_simps)
  finally show ?case
    using first rec by simp
qed

lemma PollImmediate_never_done:
  assumes "0 < interval" and "\<forall>t\<le>timeout. condition t = Inr None"
  shows "PollImmediate interval timeout condition
           = (Inl ErrWaitTimeout, map (\<lambda>k. k * interval) [0..<Suc (timeout div interval)])"
proof -
  have "\<forall>k<timeout div interval. condition (0 + (k + 1) * interval) = Inr None"
  proof (intro allI impI)
    fix k assume "k < timeout div interval"
    then have "Suc k \<le> timeout div interval" by simp
    then have "Suc k * interval \<le> timeout"
      using assms(1) by (simp add: less_eq_div_iff_mult_less_eq)
    then show "condition (0 + (k + 1) * interval) = Inr None"
      using assms(2) by simp
  qed
  then have ticks: "poll_ticks (timeout div interval) interval 0 condition
      = (Inl ErrWaitTimeout, map (\<lambda>k. 0 + (k + 1) * interval) [0..<timeout div interval])"
    by (rule poll_ticks_never_done)
  have "map (\<lambda>k. k * interval) [0..<Suc (timeout div interval)]
        = 0 # map (\<lambda>k. k * interval) (map Suc [0..<timeout div interval])"
    by (simp only: upt_conv_Cons [of 0] map_Suc_upt [symmetric]) simp
  then show ?thesis
    using assms(2) ticks by (simp add: PollImmediate_def)
qed

lemma bucket_of_Finalizers [simp]: "bucket_of (bs\<lparr>Finalizers := fs\<rparr>) cfg = bucket_of bs cfg"
  by (simp add: bucket_of_def split: option.splits)

lemma endUserCredsName_Finalizers [simp]:
  "endUserCredsName (bs\<lparr>Finalizers := fs\<rparr>) = endUserCredsName bs"
  by (simp add: endUserCredsName_def)

lemmas create_defs = CreateStorage_def Let_def finalized_def persisted_def update_events_def
  setup_events_def instance_of_def

lemma CreateStorage_update_failed:
  assumes "persisted p bs = Some err"
  shows "CreateStorage p bs =
           (Returns (Inl (WithMessage err
              (''failed to add finalizer to blob storage instance '' @ Name bs))),
            finalized p bs, update_events p bs)"
  using assms by (cases "DeletionTimestamp bs") (simp_all add: create_defs)

lemma CreateStorage_config_failed:
  assumes "persisted p bs = None" "getS3BucketConfig p bs = Inl err"
  shows "CreateStorage p bs =
           (Returns (Inl (WithMessage err
              (''failed to retrieve aws s3 bucket config for blob storage instance '' @ Name bs))),
            finalized p bs, update_events p bs @ [E_ReadBlobStorageStrategy (Tier bs)])"
  using assms by (cases "DeletionTimestamp bs") (simp_all add: create_defs)

lemma CreateStorage_user_credentials_failed:
  assumes "persisted p bs = None" "getS3BucketConfig p bs = Inr (cfg0, stratCfg)"
    "ReoncileBucketOwnerCredentials p (endUserCredsName bs) (Namespace bs) (bucket_of bs cfg0) = Inl err"
  shows "CreateStorage p bs =
           (Returns (Inl (WithMessage err
              (''failed to reconcile s3 end-user credentials for blob storage instance '' @ Name bs))),
            finalized p bs,
            update_events p bs @
            [E_ReadBlobStorageStrategy (Tier bs),
             E_ReoncileBucketOwnerCredentials (endUserCredsName bs) (Namespace bs) (bucket_of bs cfg0)])"
  using assms by (cases "DeletionTimestamp bs") (simp_all add: create_defs)

lemma CreateStorage_provider_credentials_failed:
  assumes "persisted p bs = None" "getS3BucketConfig p bs = Inr (cfg0, stratCfg)"
    "ReoncileBucketOwnerCredentials p (endUserCredsName bs) (Namespace bs) (bucket_of bs cfg0)
       = Inr endUserCreds"
    "ReconcileProviderCredentials p (Namespace bs) = Inl err"
  shows "CreateStorage p bs =
           (Returns (Inl (WithMessage err
              (''failed to reconcile aws blob storage provider credentials for blob storage instance ''
               @ Name bs))),
            finalized p bs, setup_events p bs cfg0)"
  using assms by (cases "DeletionTimestamp bs") (simp_all add: create_defs)

lemma CreateStorage_session_failed:
  assumes "persisted p bs = None" "getS3BucketConfig p bs = Inr (cfg0, stratCfg)"
    "ReoncileBucketOwnerCredentials p (endUserCredsName bs) (Namespace bs) (bucket_of bs cfg0)
       = Inr endUserCreds"
    "ReconcileProviderCredentials p (Namespace bs) = Inr providerCreds"
    "NewSession p (new_session stratCfg providerCreds) = Some err"
  shows "CreateStorage p bs = (Panics (PanicError err), finalized p bs, setup_events p bs cfg0)"
  using assms by (cases "DeletionTimestamp bs") (simp_all add: create_defs)

lemma CreateStorage_polled:
  assumes "persisted p bs = None" "getS3BucketConfig p bs = Inr (cfg0, stratCfg)"
    "ReoncileBucketOwnerCredentials p (endUserCredsName bs) (Namespace bs) (bucket_of bs cfg0)
       = Inr endUserCreds"
    "ReconcileProviderCredentials p (Namespace bs) = Inr providerCreds"
    "NewSession p (new_session stratCfg providerCreds) = None"
    "PollImmediate (Second * 5) (Minute * 5) (list_condition p (new_session stratCfg providerCreds))
       = (polled, attempts)"
  shows "CreateStorage p bs =
           (case polled of
              Inl err \<Rightarrow>
                (Returns (Inl (WithMessage err
                   (''timed out waiting to list s3 buckets, searching for blob storage instance ''
                    @ Name bs))),
                 finalized p bs,
                 setup_events p bs cfg0
                 @ map (E_ListBuckets (new_session stratCfg providerCreds)) attempts)
            | Inr existingBuckets \<Rightarrow>
                (case find (\<lambda>b. b = bucket_of bs cfg0) existingBuckets of
                   Some foundBucket \<Rightarrow>
                     (Returns (Inr (instance_of (bucket_of bs cfg0) endUserCreds)), finalized p bs,
                      setup_events p bs cfg0
                      @ map (E_ListBuckets (new_session stratCfg providerCreds)) attempts)
                 | None \<Rightarrow>
                     (case CreateBucket p (new_session stratCfg providerCreds)
                             (cfg0\<lparr>Bucket := Some (bucket_of bs cfg0)\<rparr>) of
                        Some err \<Rightarrow>
                          Returns (Inl (WithMessage err
                            (''failed to create s3 bucket '' @ bucket_of bs cfg0
                             @ '', for blob storage instance '' @ Name bs)))
                      | None \<Rightarrow> Returns (Inr (instance_of (bucket_of bs cfg0) endUserCreds)),
                      finalized p bs,
                      setup_events p bs cfg0
                      @ map (E_ListBuckets (new_session stratCfg providerCreds)) attempts
                      @ [E_CreateBucket (new_session stratCfg providerCreds)
                           (cfg0\<lparr>Bucket := Some (bucket_of bs cfg0)\<rparr>)])))"
  using assms
  by (cases "DeletionTimestamp bs")
     (simp_all add: create_defs split: sum.splits option.splits)

lemma CreateStorage_cases [case_names update_failed config_failed user_credentials_failed
    provider_credentials_failed session_failed polled]:
  obtains
    err where "persisted p bs = Some err"
  | err where "persisted p bs = None" "getS3BucketConfig p bs = Inl err"
  | cfg0 stratCfg err where "persisted p bs = None" "getS3BucketConfig p bs = Inr (cfg0, stratCfg)"
      "ReoncileBucketOwnerCredentials p (endUserCredsName bs) (Namespace bs) (bucket_of bs cfg0) = Inl err"
  | cfg0 stratCfg endUserCreds err where "persisted p bs = None"
      "getS3BucketConfig p bs = Inr (cfg0, stratCfg)"
      "ReoncileBucketOwnerCredentials p (endUserCredsName bs) (Namespace bs) (bucket_of bs cfg0)
         = Inr endUserCreds"
      "ReconcileProviderCredentials p (Namespace bs) = Inl err"
  | cfg0 stratCfg endUserCreds providerCreds err where "persisted p bs = None"
      "getS3BucketConfig p bs = Inr (cfg0, stratCfg)"
      "ReoncileBucketOwnerCredentials p (endUserCredsName bs) (Namespace bs) (bucket_of bs cfg0)
         = Inr endUserCreds"
      "ReconcileProviderCredentials p (Namespace bs) = Inr providerCreds"
      "NewSession p (new_session stratCfg providerCreds) = Some err"
  | cfg0 stratCfg endUserCreds providerCreds polled attempts where "persisted p bs = None"
      "getS3BucketConfig p bs = Inr (cfg0, stratCfg)"
      "ReoncileBucketOwnerCredentials p (endUserCredsName bs) (Namespace bs) (bucket_of bs cfg0)
         = Inr endUserCreds"
      "ReconcileProviderCredentials p (Namespace bs) = Inr providerCreds"
      "NewSession p (new_session stratCfg providerCreds) = None"
      "PollImmediate (Second * 5) (Minute * 5) (list_condition p (new_session stratCfg providerCreds))
         = (polled, attempts)"
proof (cases "persisted p bs")
  case (Some err)
  then show ?thesis by (rule that(1))
next
  case u: None
  show ?thesis
  proof (cases "getS3BucketConfig p bs")
    case (Inl err)
    with u show ?thesis by (rule that(2))
  next
    case (Inr c)
    then obtain cfg0 stratCfg where g: "getS3BucketConfig p bs = Inr (cfg0, stratCfg)"
      by (cases c) simp
    show ?thesis
    proof (cases "ReoncileBucketOwnerCredentials p (endUserCredsName bs) (Namespace bs)
                    (bucket_of bs cfg0)")
      case (Inl err)
      with u g show ?thesis by (rule that(3))
    next
      case e: (Inr endUserCreds)
      show ?thesis
      proof (cases "ReconcileProviderCredentials p (Namespace bs)")
        case (Inl err)
        with u g e show ?thesis by (rule that(4))
      next
        case r: (Inr providerCreds)
        show ?thesis
        proof (cases "NewSession p (new_session stratCfg providerCreds)")
          case (Some err)
          with u g e r show ?thesis by (rule that(5))
        next
          case n: None
          obtain polled attempts where
            "PollImmediate (Second * 5) (Minute * 5)
               (list_condition p (new_session stratCfg providerCreds)) = (polled, attempts)"
            by (cases "PollImmediate (Second * 5) (Minute * 5)
               (list_condition p (new_session stratCfg providerCreds))")
          with u g e r n show ?thesis by (rule that(6))
        qed
      qed
    qed
  qed
qed

lemma list_condition_done:
  "ListBuckets p sess t = Inr buckets \<Longrightarrow> list_condition p sess t = Inr (Some buckets)"
  by (simp add: list_condition_def)

lemma find_member: "x \<in> set xs \<Longrightarrow> find (\<lambda>b. b = x) xs = Some x"
  by (induction xs) auto

lemma CreateStorage_listed:
  assumes "E_ListBuckets sess t \<in> set (events (CreateStorage p bs))"
  obtains cfg0 stratCfg endUserCreds providerCreds polled attempts where
    "persisted p bs = None"
    "getS3BucketConfig p bs = Inr (cfg0, stratCfg)"
    "ReoncileBucketOwnerCredentials p (endUserCredsName bs) (Namespace bs) (bucket_of bs cfg0)
       = Inr endUserCreds"
    "ReconcileProviderCredentials p (Namespace bs) = Inr providerCreds"
    "NewSession p (new_session stratCfg providerCreds) = None"
    "PollImmediate (Second * 5) (Minute * 5) (list_condition p (new_session stratCfg providerCreds))
       = (polled, attempts)"
    "sess = new_session stratCfg providerCreds"
    "t \<in> set attempts"
proof (cases p bs rule: CreateStorage_cases)
  case (update_failed err)
  with assms show ?thesis
    by (simp add: CreateStorage_update_failed events_def update_events_def split: if_splits)
next
  case (config_failed err)
  with assms show ?thesis
    by (simp add: CreateStorage_config_failed events_def update_events_def split: if_splits)
next
  case (user_credentials_failed cfg0 stratCfg err)
  with assms show ?thesis
    by (simp add: CreateStorage_user_credentials_failed events_def update_events_def
        split: if_splits)
next
  case (provider_credentials_failed cfg0 stratCfg endUserCreds err)
  with assms show ?thesis
    by (simp add: CreateStorage_provider_credentials_failed events_def setup_events_def
        update_events_def split: if_splits)
next
  case (session_failed cfg0 stratCfg endUserCreds providerCreds err)
  with assms show ?thesis
    by (simp add: CreateStorage_session_failed events_def setup_events_def update_events_def
        split: if_splits)
next
  case (polled cfg0 stratCfg endUserCreds providerCreds polled attempts)
  have "E_ListBuckets sess t \<in> E_ListBuckets (new_session stratCfg providerCreds) ` set attempts"
    using assms
    by (simp add: CreateStorage_polled [OF polled] events_def setup_events_def update_events_def
        split: sum.splits option.splits if_splits)
  then have "sess = new_session stratCfg providerCreds" "t \<in> set attempts"
    by auto
  with polled show ?thesis by (rule that)
qed

lemma CreateStorage_returned_instance:
  assumes "result (CreateStorage p bs) = Returns (Inr bsi)"
  shows "\<exists>cfg0 stratCfg endUserCreds.
           getS3BucketConfig p bs = Inr (cfg0, stratCfg)
         \<and> ReoncileBucketOwnerCredentials p (endUserCredsName bs) (Namespace bs) (bucket_of bs cfg0)
             = Inr endUserCreds
         \<and> bsi = instance_of (bucket_of bs cfg0) endUserCreds"
proof (cases p bs rule: CreateStorage_cases)
  case (update_failed err)
  with assms show ?thesis by (simp add: CreateStorage_update_failed result_def)
next
  case (config_failed err)
  with assms show ?thesis by (simp add: CreateStorage_config_failed result_def)
next
  case (user_credentials_failed cfg0 stratCfg err)
  with assms show ?thesis by (simp add: CreateStorage_user_credentials_failed result_def)
next
  case (provider_credentials_failed cfg0 stratCfg endUserCreds err)
  with assms show ?thesis by (simp add: CreateStorage_provider_credentials_failed result_def)
next
  case (session_failed cfg0 stratCfg endUserCreds providerCreds err)
  with assms show ?thesis by (simp add: CreateStorage_session_failed result_def)
next
  case (polled cfg0 stratCfg endUserCreds providerCreds polled attempts)
  have "bsi = instance_of (bucket_of bs cfg0) endUserCreds"
    using assms
    by (simp add: CreateStorage_polled [OF polled] result_def
        split: sum.splits option.splits)
  with polled show ?thesis by simp
qed

text \<open>
  C1. When a listing the poll obtained holds the target bucket's name, \<open>CreateStorage\<close>
  returns, without error, the instance made of the bucket's name and the end-user
  credentials, and issues no creation call. Hence a call that follows a successful one,
  with the same strategy and the same end-user credentials, returns the same instance.
\<close>

theorem CreateStorage_existing_bucket:
  assumes cfg: "getS3BucketConfig p bs = Inr (cfg0, stratCfg)"
    and listed: "E_ListBuckets sess t \<in> set (events (CreateStorage p bs))"
    and answer: "ListBuckets p sess t = Inr buckets"
    and exists: "bucket_of bs cfg0 \<in> set buckets"
  shows "(\<exists>endUserCreds.
            ReoncileBucketOwnerCredentials p (endUserCredsName bs) (Namespace bs) (bucket_of bs cfg0)
              = Inr endUserCreds
          \<and> result (CreateStorage p bs) =
              Returns (Inr \<lparr>DeploymentDetails =
                \<lparr>BucketName = bucket_of bs cfg0, CredentialKeyID = AccessKeyID endUserCreds,
                 CredentialSecretKey = SecretAccessKey endUserCreds\<rparr>\<rparr>))
       \<and> (\<forall>s c. E_CreateBucket s c \<notin> set (events (CreateStorage p bs)))
       \<and> (\<forall>p0 bs0 bsi0.
             result (CreateStorage p0 bs0) = Returns (Inr bsi0)
             \<and> Name bs0 = Name bs \<and> Namespace bs0 = Namespace bs
             \<and> getS3BucketConfig p0 bs0 = getS3BucketConfig p bs
             \<and> ReoncileBucketOwnerCredentials p0 = ReoncileBucketOwnerCredentials p
             \<longrightarrow> result (CreateStorage p bs) = Returns (Inr bsi0))"
proof -
  from listed obtain cfg0' stratCfg' endUserCreds providerCreds polled attempts where
    u: "persisted p bs = None"
    and g: "getS3BucketConfig p bs = Inr (cfg0', stratCfg')"
    and e: "ReoncileBucketOwnerCredentials p (endUserCredsName bs) (Namespace bs) (bucket_of bs cfg0')
       = Inr endUserCreds"
    and r: "ReconcileProviderCredentials p (Namespace bs) = Inr providerCreds"
    and n: "NewSession p (new_session stratCfg' providerCreds) = None"
    and q: "PollImmediate (Second * 5) (Minute * 5)
              (list_condition p (new_session stratCfg' providerCreds)) = (polled, attempts)"
    and sess: "sess = new_session stratCfg' providerCreds"
    and t: "t \<in> set attempts"
    by (rule CreateStorage_listed)
  from cfg g have same: "cfg0' = cfg0" "stratCfg' = stratCfg" by simp_all
  have "fst (PollImmediate (Second * 5) (Minute * 5) (list_condition p sess)) = Inr buckets"
    using t q sess list_condition_done [OF answer]
    by (intro PollImmediate_done [of t]) simp_all
  with q sess have polled: "polled = Inr buckets" by simp
  have found: "find (\<lambda>b. b = bucket_of bs cfg0) buckets = Some (bucket_of bs cfg0)"
    using exists by (rule find_member)
  have run: "CreateStorage p bs =
      (Returns (Inr (instance_of (bucket_of bs cfg0) endUserCreds)), finalized p bs,
       setup_events p bs cfg0 @ map (E_ListBuckets sess) attempts)"
    using CreateStorage_polled [OF u g e r n q] polled found same sess by simp
  have earlier: "result (CreateStorage p bs) = Returns (Inr bsi0)"
    if first: "result (CreateStorage p0 bs0) = Returns (Inr bsi0)"
      and names: "Name bs0 = Name bs" "Namespace bs0 = Namespace bs"
      and same_cfg: "getS3BucketConfig p0 bs0 = getS3BucketConfig p bs"
      and same_creds: "ReoncileBucketOwnerCredentials p0 = ReoncileBucketOwnerCredentials p"
    for p0 bs0 bsi0
  proof -
    from CreateStorage_returned_instance [OF first] obtain c0 s0 euc0 where
      g0: "getS3BucketConfig p0 bs0 = Inr (c0, s0)"
      and e0: "ReoncileBucketOwnerCredentials p0 (endUserCredsName bs0) (Namespace bs0)
                 (bucket_of bs0 c0) = Inr euc0"
      and i0: "bsi0 = instance_of (bucket_of bs0 c0) euc0"
      by blast
    from g0 same_cfg cfg have c0: "c0 = cfg0" by simp
    have b0: "bucket_of bs0 cfg0 = bucket_of bs cfg0"
      using names by (simp add: bucket_of_def split: option.splits)
    have n0: "endUserCredsName bs0 = endUserCredsName bs"
      using names by (simp add: endUserCredsName_def)
    from e0 e same same_creds names c0 b0 n0 have "euc0 = endUserCreds" by simp
    with run i0 c0 b0 show ?thesis by (simp add: result_def)
  qed
  show ?thesis
    using run e same earlier
    by (auto simp add: result_def events_def instance_of_def setup_events_def update_events_def)
qed

theorem CreateStorage_existing_bucket_witness:
  "getS3BucketConfig (simulated created_cluster) (request first_create)
     = Inr (\<lparr>Bucket = None, OtherFields = ''{}''\<rparr>, \<lparr>Region = ''us-east-1'', RawStrategy = ''{}''\<rparr>)
   \<and> E_ListBuckets store_session 10 \<in> set (events second_create)
   \<and> ListBuckets (simulated created_cluster) store_session 10 = Inr [''ns1-store'']
   \<and> result second_create = Returns (Inr store_instance)
   \<and> (\<forall>s c. E_CreateBucket s c \<notin> set (events second_create))
   \<and> result first_create = Returns (Inr store_instance)
   \<and> E_CreateBucket store_session \<lparr>Bucket = Some ''ns1-store'', OtherFields = ''{}''\<rparr>
       \<in> set (events first_create)"
proof -
  have a: "getS3BucketConfig (simulated created_cluster) (request first_create)
     = Inr (\<lparr>Bucket = None, OtherFields = ''{}''\<rparr>, \<lparr>Region = ''us-east-1'', RawStrategy = ''{}''\<rparr>)"
    by code_simp
  have b: "E_ListBuckets store_session 10
             \<in> set (events (CreateStorage (simulated created_cluster) (request first_create)))"
    by code_simp
  have c: "ListBuckets (simulated created_cluster) store_session 10 = Inr [''ns1-store'']"
    by code_simp
  have d: "bucket_of (request first_create) \<lparr>Bucket = None, OtherFields = ''{}''\<rparr>
             \<in> set [''ns1-store'']"
    by code_simp
  have first: "result (CreateStorage (simulated empty_cluster) store_request)
                 = Returns (Inr store_instance)"
    by code_simp
  have created: "E_CreateBucket store_session \<lparr>Bucket = Some ''ns1-store'', OtherFields = ''{}''\<rparr>
       \<in> set (events first_create)"
    by code_simp
  have names: "Name store_request = Name (request first_create)"
    "Namespace store_request = Namespace (request first_create)"
    by code_simp+
  have same_cfg: "getS3BucketConfig (simulated empty_cluster) store_request
                    = getS3BucketConfig (simulated created_cluster) (request first_create)"
    by code_simp
  have same_creds: "ReoncileBucketOwnerCredentials (simulated empty_cluster)
                      = ReoncileBucketOwnerCredentials (simulated created_cluster)"
    by (simp add: simulated_def)
  note concl = CreateStorage_existing_bucket [OF a b c d]
  from concl have no_create:
    "\<forall>s c. E_CreateBucket s c
        \<notin> set (events (CreateStorage (simulated created_cluster) (request first_create)))"
    by blast
  from concl first names same_cfg same_creds
  have second: "result (CreateStorage (simulated created_cluster) (request first_create))
                  = Returns (Inr store_instance)"
    by blast
  show ?thesis
    using a b c no_create second first created
    by (simp add: second_create_def first_create_def)
qed

theorem getS3BucketConfig_region_witness:
  "ReadBlobStorageStrategy (simulated empty_cluster) (Tier store_request)
     = Inr \<lparr>Region = [], RawStrategy = ''{}''\<rparr>
   \<and> getS3BucketConfig (simulated empty_cluster) store_request
     = Inr (\<lparr>Bucket = None, OtherFields = ''{}''\<rparr>, \<lparr>Region = ''us-east-1'', RawStrategy = ''{}''\<rparr>)
   \<and> DefaultRegion (simulated empty_cluster) = ''us-east-1''
   \<and> ReadBlobStorageStrategy (simulated (empty_cluster\<lparr>sim_region := ''eu-west-1''\<rparr>))
       (Tier store_request)
     = Inr \<lparr>Region = ''eu-west-1'', RawStrategy = ''{}''\<rparr>
   \<and> getS3BucketConfig (simulated (empty_cluster\<lparr>sim_region := ''eu-west-1''\<rparr>)) store_request
     = Inr (\<lparr>Bucket = None, OtherFields = ''{}''\<rparr>, \<lparr>Region = ''eu-west-1'', RawStrategy = ''{}''\<rparr>)"
proof -
  have r: "ReadBlobStorageStrategy (simulated empty_cluster) (Tier store_request)
     = Inr \<lparr>Region = [], RawStrategy = ''{}''\<rparr>"
    by code_simp
  have g: "getS3BucketConfig (simulated empty_cluster) store_request
     = Inr (\<lparr>Bucket = None, OtherFields = ''{}''\<rparr>, \<lparr>Region = ''us-east-1'', RawStrategy = ''{}''\<rparr>)"
    by code_simp
  have r': "ReadBlobStorageStrategy (simulated (empty_cluster\<lparr>sim_region := ''eu-west-1''\<rparr>))
       (Tier store_request) = Inr \<lparr>Region = ''eu-west-1'', RawStrategy = ''{}''\<rparr>"
    by code_simp
  have g': "getS3BucketConfig (simulated (empty_cluster\<lparr>sim_region := ''eu-west-1''\<rparr>)) store_request
     = Inr (\<lparr>Bucket = None, OtherFields = ''{}''\<rparr>, \<lparr>Region = ''eu-west-1'', RawStrategy = ''{}''\<rparr>)"
    by code_simp
  show ?thesis
    using r g r' g' getS3BucketConfig_region [OF r g] getS3BucketConfig_region [OF r' g']
    by simp
qed

lemma poll_ticks_outcome:
  assumes "\<forall>t e. condition t \<noteq> Inl e"
  shows "(\<exists>x t. fst (poll_ticks n interval now condition) = Inr x
            \<and> t \<in> set (snd (poll_ticks n interval now condition)) \<and> condition t = Inr (Some x))
         \<or> poll_ticks n interval now condition
             = (Inl ErrWaitTimeout, map (\<lambda>k. now + (k + 1) * interval) [0..<n])"
proof (induction n arbitrary: now)
  case 0
  then show ?case by simp
next
  case (Suc n)
  show ?case
  proof (cases "condition (now + interval)")
    case (Inl e)
    with assms show ?thesis by simp
  next
    case (Inr r)
    show ?thesis
    proof (cases r)
      case (Some x)
      with Inr show ?thesis by auto
    next
      case None
      obtain r' ts where pt: "poll_ticks n interval (now + interval) condition = (r', ts)"
        by (cases "poll_ticks n interval (now + interval) condition")
      have shift: "map (\<lambda>k. now + (k + 1) * interval) [0..<Suc n]
            = (now + interval) # map (\<lambda>k. now + interval + (k + 1) * interval) [0..<n]"
      proof -
        have "map (\<lambda>k. now + (k + 1) * interval) [0..<Suc n]
            = (now + interval) # map (\<lambda>k. now + (k + 1) * interval) (map Suc [0..<n])"
          by (simp only: upt_conv_Cons [of 0] map_Suc_upt [symmetric]) simp
        then show ?thesis by (simp add: algebra_simps)
      qed
      from Suc.IH [of "now + interval"] pt
      consider (finished) x t where "r' = Inr x" "t \<in> set ts" "condition t = Inr (Some x)"
        | (timeout) "r' = Inl ErrWaitTimeout"
            "ts = map (\<lambda>k. now + interval + (k + 1) * interval) [0..<n]"
        by auto
      then show ?thesis
      proof cases
        case finished
        then show ?thesis
          using Inr None pt by auto
      next
        case timeout
        then show ?thesis
          using Inr None pt shift by simp
      qed
    qed
  qed
qed

lemma PollImmediate_outcome:
  assumes "\<forall>t e. condition t \<noteq> Inl e"
  shows "(\<exists>x t. fst (PollImmediate interval timeout condition) = Inr x
            \<and> t \<in> set (snd (PollImmediate interval timeout condition)) \<and> condition t = Inr (Some x))
         \<or> PollImmediate interval timeout condition
             = (Inl ErrWaitTimeout, map (\<lambda>k. k * interval) [0..<Suc (timeout div interval)])"
proof (cases "condition 0")
  case (Inl e)
  with assms show ?thesis by simp
next
  case (Inr r)
  show ?thesis
  proof (cases r)
    case (Some x)
    with Inr show ?thesis by (auto simp add: PollImmediate_def)
  next
    case None
    obtain r' ts where pt: "poll_ticks (timeout div interval) interval 0 condition = (r', ts)"
      by (cases "poll_ticks (timeout div interval) interval 0 condition")
    have shift: "map (\<lambda>k. k * interval) [0..<Suc (timeout div interval)]
          = 0 # map (\<lambda>k. 0 + (k + 1) * interval) [0..<timeout div interval]"
    proof -
      have "map (\<lambda>k. k * interval) [0..<Suc (timeout div interval)]
          = 0 # map (\<lambda>k. k * interval) (map Suc [0..<timeout div interval])"
        by (simp only: upt_conv_Cons [of 0] map_Suc_upt [symmetric]) simp
      then show ?thesis by simp
    qed
    from poll_ticks_outcome [OF assms, of "timeout div interval" interval 0] pt
    consider (finished) x t where "r' = Inr x" "t \<in> set ts" "condition t = Inr (Some x)"
      | (timeout) "r' = Inl ErrWaitTimeout"
          "ts = map (\<lambda>k. 0 + (k + 1) * interval) [0..<timeout div interval]"
      by auto
    then show ?thesis
    proof cases
      case finished
      then show ?thesis
        using Inr None pt by (auto simp add: PollImmediate_def)
    next
      case timeout
      then show ?thesis
        using Inr None pt shift by (simp add: PollImmediate_def)
    qed
  qed
qed

lemma list_condition_no_error: "\<forall>t e. list_condition p sess t \<noteq> Inl e"
  by (simp add: list_condition_def split: sum.splits)

lemma list_times_Nil [simp]: "list_times [] = []"
  by (simp add: list_times_def)

lemma list_times_Cons [simp]:
  "list_times (e # tr) = (case e of E_ListBuckets sess t \<Rightarrow> [t] | _ \<Rightarrow> []) @ list_times tr"
  by (simp add: list_times_def)

lemma list_times_append [simp]: "list_times (xs @ ys) = list_times xs @ list_times ys"
  by (simp add: list_times_def)

lemma list_times_attempts [simp]: "list_times (map (E_ListBuckets sess) ts) = ts"
  by (induction ts) simp_all

lemma list_times_update [simp]: "list_times (update_events p bs) = []"
  by (simp add: update_events_def)

lemma list_times_setup [simp]: "list_times (setup_events p bs cfg0) = []"
  by (simp add: setup_events_def)

lemma poll_constants: "Second * 5 = 5" "Minute * 5 = 300" "300 div 5 = (60::nat)"
  by (simp_all add: Second_def Minute_def)

lemma CreateStorage_list_times:
  "\<exists>n\<le>61. list_times (events (CreateStorage p bs)) = map (\<lambda>k. 5 * k) [0..<n]"
proof (cases p bs rule: CreateStorage_cases)
  case (update_failed err)
  then have "list_times (events (CreateStorage p bs)) = map (\<lambda>k. 5 * k) [0..<0]"
    by (simp add: CreateStorage_update_failed events_def)
  then show ?thesis by (intro exI [of _ 0]) simp
next
  case (config_failed err)
  then have "list_times (events (CreateStorage p bs)) = map (\<lambda>k. 5 * k) [0..<0]"
    by (simp add: CreateStorage_config_failed events_def)
  then show ?thesis by (intro exI [of _ 0]) simp
next
  case (user_credentials_failed cfg0 stratCfg err)
  then have "list_times (events (CreateStorage p bs)) = map (\<lambda>k. 5 * k) [0..<0]"
    by (simp add: CreateStorage_user_credentials_failed events_def)
  then show ?thesis by (intro exI [of _ 0]) simp
next
  case (provider_credentials_failed cfg0 stratCfg endUserCreds err)
  then have "list_times (events (CreateStorage p bs)) = map (\<lambda>k. 5 * k) [0..<0]"
    by (simp add: CreateStorage_provider_credentials_failed events_def)
  then show ?thesis by (intro exI [of _ 0]) simp
next
  case (session_failed cfg0 stratCfg endUserCreds providerCreds err)
  then have "list_times (events (CreateStorage p bs)) = map (\<lambda>k. 5 * k) [0..<0]"
    by (simp add: CreateStorage_session_failed events_def)
  then show ?thesis by (intro exI [of _ 0]) simp
next
  case (polled cfg0 stratCfg endUserCreds providerCreds polled attempts)
  have "list_times (events (CreateStorage p bs)) = attempts"
    by (simp add: CreateStorage_polled [OF polled] events_def split: sum.splits option.splits)
  moreover obtain n where "n \<le> Suc (300 div 5)" "attempts = map (\<lambda>k. k * 5) [0..<n]"
    using PollImmediate_attempts [of 300 5 "list_condition p (new_session stratCfg providerCreds)"]
      polled(6)
    by (auto simp add: poll_constants)
  ultimately have "n \<le> 61" "list_times (events (CreateStorage p bs)) = map (\<lambda>k. 5 * k) [0..<n]"
    by (simp_all add: mult.commute)
  then show ?thesis by blast
qed

lemma CreateStorage_timeout:
  assumes listed: "E_ListBuckets sess t0 \<in> set (events (CreateStorage p bs))"
    and failed: "\<forall>s t. E_ListBuckets s t \<in> set (events (CreateStorage p bs))
                   \<longrightarrow> (\<exists>err. ListBuckets p s t = Inl err)"
  shows "CreateStorage p bs =
           (Returns (Inl (WithMessage ErrWaitTimeout
              (''timed out waiting to list s3 buckets, searching for blob storage instance ''
               @ Name bs))),
            finalized p bs,
            update_events p bs
            @ [E_ReadBlobStorageStrategy (Tier bs),
               E_ReoncileBucketOwnerCredentials (endUserCredsName bs) (Namespace bs)
                 (bucket_of bs (fst (projr (getS3BucketConfig p bs)))),
               E_ReconcileProviderCredentials (Namespace bs)]
            @ map (E_ListBuckets sess) (map (\<lambda>k. 5 * k) [0..<61]))"
proof -
  from listed obtain cfg0 stratCfg endUserCreds providerCreds polled attempts where
    u: "persisted p bs = None"
    and g: "getS3BucketConfig p bs = Inr (cfg0, stratCfg)"
    and e: "ReoncileBucketOwnerCredentials p (endUserCredsName bs) (Namespace bs) (bucket_of bs cfg0)
       = Inr endUserCreds"
    and r: "ReconcileProviderCredentials p (Namespace bs) = Inr providerCreds"
    and n: "NewSession p (new_session stratCfg providerCreds) = None"
    and q: "PollImmediate (Second * 5) (Minute * 5)
              (list_condition p (new_session stratCfg providerCreds)) = (polled, attempts)"
    and sess: "sess = new_session stratCfg providerCreds"
    and t: "t0 \<in> set attempts"
    by (rule CreateStorage_listed)
  note run = CreateStorage_polled [OF u g e r n q]
  have in_trace: "E_ListBuckets sess t \<in> set (events (CreateStorage p bs))" if "t \<in> set attempts" for t
    using that sess
    by (simp add: run events_def split: sum.splits option.splits)
  have "\<not> (\<exists>x t. polled = Inr x \<and> t \<in> set attempts \<and> list_condition p sess t = Inr (Some x))"
  proof
    assume "\<exists>x t. polled = Inr x \<and> t \<in> set attempts \<and> list_condition p sess t = Inr (Some x)"
    then obtain x t where "t \<in> set attempts" "list_condition p sess t = Inr (Some x)"
      by blast
    moreover from this(1) have "\<exists>err. ListBuckets p sess t = Inl err"
      using failed in_trace by blast
    ultimately show False
      by (auto simp add: list_condition_def)
  qed
  then have "polled = Inl ErrWaitTimeout \<and> attempts = map (\<lambda>k. k * 5) [0..<Suc (300 div 5)]"
    using PollImmediate_outcome [OF list_condition_no_error, of 5 300 p sess] q sess
    by (auto simp add: poll_constants)
  then have "polled = Inl ErrWaitTimeout" "attempts = map (\<lambda>k. 5 * k) [0..<61]"
    by (simp_all add: mult.commute)
  then show ?thesis
    using run g sess by (simp add: setup_events_def)
qed

lemma list_times_member: "E_ListBuckets sess t \<in> set tr \<Longrightarrow> t \<in> set (list_times tr)"
  by (induction tr) (auto split: event.splits)

text \<open>
  C4. \<open>CreateStorage\<close> lists the buckets at 0, 5, 10, ... seconds and at most up to 300
  seconds after the poll began (at most 61 attempts). When the poll began and every
  listing it attempted failed, all 61 attempts were made, \<open>CreateStorage\<close> returns the
  wait package's timeout error, wrapped, and no creation call was issued.
\<close>

theorem CreateStorage_poll_timeout:
  "(\<exists>n\<le>61. list_times (events (CreateStorage p bs)) = map (\<lambda>k. 5 * k) [0..<n])
   \<and> (E_ListBuckets sess t0 \<in> set (events (CreateStorage p bs))
      \<and> (\<forall>s t. E_ListBuckets s t \<in> set (events (CreateStorage p bs))
             \<longrightarrow> (\<exists>err. ListBuckets p s t = Inl err))
      \<longrightarrow> result (CreateStorage p bs) =
            Returns (Inl (WithMessage ErrWaitTimeout
              (''timed out waiting to list s3 buckets, searching for blob storage instance ''
               @ Name bs)))
        \<and> list_times (events (CreateStorage p bs)) = map (\<lambda>k. 5 * k) [0..<61]
        \<and> (\<forall>s c. E_CreateBucket s c \<notin> set (events (CreateStorage p bs))))"
proof (intro conjI impI)
  show "\<exists>n\<le>61. list_times (events (CreateStorage p bs)) = map (\<lambda>k. 5 * k) [0..<n]"
    by (rule CreateStorage_list_times)
next
  assume h: "E_ListBuckets sess t0 \<in> set (events (CreateStorage p bs))
      \<and> (\<forall>s t. E_ListBuckets s t \<in> set (events (CreateStorage p bs))
             \<longrightarrow> (\<exists>err. ListBuckets p s t = Inl err))"
  then have run: "CreateStorage p bs =
           (Returns (Inl (WithMessage ErrWaitTimeout
              (''timed out waiting to list s3 buckets, searching for blob storage instance ''
               @ Name bs))),
            finalized p bs,
            update_events p bs
            @ [E_ReadBlobStorageStrategy (Tier bs),
               E_ReoncileBucketOwnerCredentials (endUserCredsName bs) (Namespace bs)
                 (bucket_of bs (fst (projr (getS3BucketConfig p bs)))),
               E_ReconcileProviderCredentials (Namespace bs)]
            @ map (E_ListBuckets sess) (map (\<lambda>k. 5 * k) [0..<61]))"
    by (intro CreateStorage_timeout) blast+
  show "result (CreateStorage p bs) =
            Returns (Inl (WithMessage ErrWaitTimeout
              (''timed out waiting to list s3 buckets, searching for blob storage instance ''
               @ Name bs)))"
    by (simp add: run result_def)
  show "list_times (events (CreateStorage p bs)) = map (\<lambda>k. 5 * k) [0..<61]"
    by (simp add: run events_def del: map_map)
  show "\<forall>s c. E_CreateBucket s c \<notin> set (events (CreateStorage p bs))"
    by (auto simp add: run events_def update_events_def)
qed

theorem CreateStorage_poll_timeout_witness:
  "E_ListBuckets store_session 0 \<in> set (events (CreateStorage (simulated never_ready) store_request))
   \<and> ListBuckets (simulated never_ready) store_session 300
       = Inl (AWSError ''InvalidAccessKeyId'' ''unknown access key'')
   \<and> result (CreateStorage (simulated never_ready) store_request) =
       Returns (Inl (WithMessage ErrWaitTimeout
         ''timed out waiting to list s3 buckets, searching for blob storage instance store''))
   \<and> list_times (events (CreateStorage (simulated never_ready) store_request))
       = map (\<lambda>k. 5 * k) [0..<61]
   \<and> (\<forall>s c. E_CreateBucket s c \<notin> set (events (CreateStorage (simulated never_ready) store_request)))"
proof -
  let ?run = "CreateStorage (simulated never_ready) store_request"
  note concl = CreateStorage_poll_timeout [of "simulated never_ready" store_request store_session 0]
  have began: "E_ListBuckets store_session 0 \<in> set (events ?run)"
    by code_simp
  have last: "ListBuckets (simulated never_ready) store_session 300
       = Inl (AWSError ''InvalidAccessKeyId'' ''unknown access key'')"
    by code_simp
  from concl obtain n where n: "n \<le> 61" "list_times (events ?run) = map (\<lambda>k. 5 * k) [0..<n]"
    by blast
  have failed: "\<forall>s t. E_ListBuckets s t \<in> set (events ?run)
                  \<longrightarrow> (\<exists>err. ListBuckets (simulated never_ready) s t = Inl err)"
  proof (intro allI impI)
    fix s t assume "E_ListBuckets s t \<in> set (events ?run)"
    then have "t \<in> set (list_times (events ?run))"
      by (rule list_times_member)
    with n have "t < 1000" by auto
    then show "\<exists>err. ListBuckets (simulated never_ready) s t = Inl err"
      by (simp add: simulated_def never_ready_def)
  qed
  have name: "Name store_request = ''store''"
    by (simp add: store_request_def)
  show ?thesis
    using concl began failed last name by simp
qed

lemmas delete_defs = DeleteStorage_def Let_def released_def delete_events_def


lemma DeleteStorage_credentials_failed:
  assumes "getS3BucketConfig p bs = Inr (cfg0, stratCfg)"
    "ReconcileProviderCredentials p (Namespace bs) = Inl err"
  shows "DeleteStorage p bs =
           (Returns (Some (WithMessage err
              (''failed to reconcile aws provider credentials for blob storage instance '' @ Name bs))),
            bs, [E_ReadBlobStorageStrategy (Tier bs), E_ReconcileProviderCredentials (Namespace bs)])"
  using assms by (simp add: delete_defs)

lemma DeleteStorage_session_failed:
  assumes "getS3BucketConfig p bs = Inr (cfg0, stratCfg)"
    "ReconcileProviderCredentials p (Namespace bs) = Inr providerCreds"
    "NewSession p (new_session stratCfg providerCreds) = Some err"
  shows "DeleteStorage p bs =
           (Panics (PanicError err), bs,
            [E_ReadBlobStorageStrategy (Tier bs), E_ReconcileProviderCredentials (Namespace bs)])"
  using assms by (simp add: delete_defs)

lemma DeleteStorage_delete_failed:
  assumes "getS3BucketConfig p bs = Inr (cfg0, stratCfg)"
    "ReconcileProviderCredentials p (Namespace bs) = Inr providerCreds"
    "NewSession p (new_session stratCfg providerCreds) = None"
    "delete_failure (bucket_of bs cfg0)
       (DeleteBucket p (new_session stratCfg providerCreds) (bucket_of bs cfg0)) = Some failure"
  shows "DeleteStorage p bs =
           (Returns (Some failure), bs,
            delete_events bs (new_session stratCfg providerCreds) (bucket_of bs cfg0))"
  using assms by (simp add: delete_defs)

lemma DeleteStorage_wait_failed:
  assumes "getS3BucketConfig p bs = Inr (cfg0, stratCfg)"
    "ReconcileProviderCredentials p (Namespace bs) = Inr providerCreds"
    "NewSession p (new_session stratCfg providerCreds) = None"
    "delete_failure (bucket_of bs cfg0)
       (DeleteBucket p (new_session stratCfg providerCreds) (bucket_of bs cfg0)) = None"
    "WaitUntilBucketNotExists p (new_session stratCfg providerCreds) (bucket_of bs cfg0) = Some err"
  shows "DeleteStorage p bs =
           (Returns (Some (WithMessage err
              (''failed to wait for s3 bucket deletion, '' @ bucket_of bs cfg0))),
            bs,
            delete_events bs (new_session stratCfg providerCreds) (bucket_of bs cfg0)
            @ [E_WaitUntilBucketNotExists (new_session stratCfg providerCreds) (bucket_of bs cfg0)])"
  using assms by (simp add: delete_defs)

lemma DeleteStorage_credentials_request_failed:
  assumes "getS3BucketConfig p bs = Inr (cfg0, stratCfg)"
    "ReconcileProviderCredentials p (Namespace bs) = Inr providerCreds"
    "NewSession p (new_session stratCfg providerCreds) = None"
    "delete_failure (bucket_of bs cfg0)
       (DeleteBucket p (new_session stratCfg providerCreds) (bucket_of bs cfg0)) = None"
    "WaitUntilBucketNotExists p (new_session stratCfg providerCreds) (bucket_of bs cfg0) = None"
    "Client_Delete p (endUserCredsName bs) (Namespace bs) = Some err"
  shows "DeleteStorage p bs =
           (Returns (Some (WithMessage err
              (''failed to delete credential request '' @ endUserCredsName bs))),
            bs,
            delete_events bs (new_session stratCfg providerCreds) (bucket_of bs cfg0)
            @ [E_WaitUntilBucketNotExists (new_session stratCfg providerCreds) (bucket_of bs cfg0),
               E_Delete (endUserCredsName bs) (Namespace bs)])"
  using assms by (simp add: delete_defs)

lemma DeleteStorage_released:
  assumes "getS3BucketConfig p bs = Inr (cfg0, stratCfg)"
    "ReconcileProviderCredentials p (Namespace bs) = Inr providerCreds"
    "NewSession p (new_session stratCfg providerCreds) = None"
    "delete_failure (bucket_of bs cfg0)
       (DeleteBucket p (new_session stratCfg providerCreds) (bucket_of bs cfg0)) = None"
    "WaitUntilBucketNotExists p (new_session stratCfg providerCreds) (bucket_of bs cfg0) = None"
    "Client_Delete p (endUserCredsName bs) (Namespace bs) = None"
  shows "DeleteStorage p bs =
           (Returns
              (case Client_Update p (released p bs) of
                 Some err \<Rightarrow>
                   Some (WithMessage err
                     (''failed to update instance '' @ Name bs @ '' as part of finalizer reconcile''))
               | None \<Rightarrow> None),
            released p bs,
            delete_events bs (new_session stratCfg providerCreds) (bucket_of bs cfg0)
            @ [E_WaitUntilBucketNotExists (new_session stratCfg providerCreds) (bucket_of bs cfg0),
               E_Delete (endUserCredsName bs) (Namespace bs),
               E_Update (released p bs)])"
  using assms by (simp add: delete_defs split: option.splits)

lemma DeleteStorage_cases [case_names config_failed credentials_failed session_failed delete_failed
    wait_failed credentials_request_failed released]:
  obtains
    err where "getS3BucketConfig p bs = Inl err"
  | cfg0 stratCfg err where "getS3BucketConfig p bs = Inr (cfg0, stratCfg)"
      "ReconcileProviderCredentials p (Namespace bs) = Inl err"
  | cfg0 stratCfg providerCreds err where "getS3BucketConfig p bs = Inr (cfg0, stratCfg)"
      "ReconcileProviderCredentials p (Namespace bs) = Inr providerCreds"
      "NewSession p (new_session stratCfg providerCreds) = Some err"
  | cfg0 stratCfg providerCreds failure where "getS3BucketConfig p bs = Inr (cfg0, stratCfg)"
      "ReconcileProviderCredentials p (Namespace bs) = Inr providerCreds"
      "NewSession p (new_session stratCfg providerCreds) = None"
      "delete_failure (bucket_of bs cfg0)
         (DeleteBucket p (new_session stratCfg providerCreds) (bucket_of bs cfg0)) = Some failure"
  | cfg0 stratCfg providerCreds err where "getS3BucketConfig p bs = Inr (cfg0, stratCfg)"
      "ReconcileProviderCredentials p (Namespace bs) = Inr providerCreds"
      "NewSession p (new_session stratCfg providerCreds) = None"
      "delete_failure (bucket_of bs cfg0)
         (DeleteBucket p (new_session stratCfg providerCreds) (bucket_of bs cfg0)) = None"
      "WaitUntilBucketNotExists p (new_session stratCfg providerCreds) (bucket_of bs cfg0) = Some err"
  | cfg0 stratCfg providerCreds err where "getS3BucketConfig p bs = Inr (cfg0, stratCfg)"
      "ReconcileProviderCredentials p (Namespace bs) = Inr providerCreds"
      "NewSession p (new_session stratCfg providerCreds) = None"
      "delete_failure (bucket_of bs cfg0)
         (DeleteBucket p (new_session stratCfg providerCreds) (bucket_of bs cfg0)) = None"
      "WaitUntilBucketNotExists p (new_session stratCfg providerCreds) (bucket_of bs cfg0) = None"
      "Client_Delete p (endUserCredsName bs) (Namespace bs) = Some err"
  | cfg0 stratCfg providerCreds where "getS3BucketConfig p bs = Inr (cfg0, stratCfg)"
      "ReconcileProviderCredentials p (Namespace bs) = Inr providerCreds"
      "NewSession p (new_session stratCfg providerCreds) = None"
      "delete_failure (bucket_of bs cfg0)
         (DeleteBucket p (new_session stratCfg providerCreds) (bucket_of bs cfg0)) = None"
      "WaitUntilBucketNotExists p (new_session stratCfg providerCreds) (bucket_of bs cfg0) = None"
      "Client_Delete p (endUserCredsName bs) (Namespace bs) = None"
proof (cases "getS3BucketConfig p bs")
  case (Inl err)
  then show ?thesis by (rule that(1))
next
  case (Inr c)
  then obtain cfg0 stratCfg where g: "getS3BucketConfig p bs = Inr (cfg0, stratCfg)"
    by (cases c) simp
  show ?thesis
  proof (cases "ReconcileProviderCredentials p (Namespace bs)")
    case (Inl err)
    with g show ?thesis by (rule that(2))
  next
    case r: (Inr providerCreds)
    let ?sess = "new_session stratCfg providerCreds"
    show ?thesis
    proof (cases "NewSession p ?sess")
      case (Some err)
      with g r show ?thesis by (rule that(3))
    next
      case n: None
      show ?thesis
      proof (cases "delete_failure (bucket_of bs cfg0) (DeleteBucket p ?sess (bucket_of bs cfg0))")
        case (Some failure)
        with g r n show ?thesis by (rule that(4))
      next
        case d: None
        show ?thesis
        proof (cases "WaitUntilBucketNotExists p ?sess (bucket_of bs cfg0)")
          case (Some err)
          with g r n d show ?thesis by (rule that(5))
        next
          case w: None
          show ?thesis
          proof (cases "Client_Delete p (endUserCredsName bs) (Namespace bs)")
            case (Some err)
            with g r n d w show ?thesis by (rule that(6))
          next
            case None
            with g r n d w show ?thesis by (rule that(7))
          qed
        qed
      qed
    qed
  qed
qed










lemma getS3BucketConfig_DeleteBucket [simp]:
  "getS3BucketConfig (p\<lparr>DeleteBucket := f\<rparr>) bs = getS3BucketConfig p bs"
  by (simp add: getS3BucketConfig_def Let_def split: sum.splits)

lemma delete_failure_NoSuchBucket [simp]:
  "delete_failure bucket (Some (AWSError ErrCodeNoSuchBucket message)) = None"
  by (simp add: delete_failure_def awserr_Code_def)

lemma delete_failure_None [simp]: "delete_failure bucket None = None"
  by (simp add: delete_failure_def)







lemma event_bucket_simps [simp]:
  "event_bucket (E_Update b) = None"
  "event_bucket (E_Delete name namespace) = None"
  "event_bucket (E_ReadBlobStorageStrategy tier) = None"
  "event_bucket (E_ReoncileBucketOwnerCredentials name namespace bucket) = Some bucket"
  "event_bucket (E_ReconcileProviderCredentials namespace) = None"
  "event_bucket (E_ListBuckets sess t) = None"
  "event_bucket (E_CreateBucket sess input) = Bucket input"
  "event_bucket (E_DeleteBucket sess bucket) = Some bucket"
  "event_bucket (E_WaitUntilBucketNotExists sess bucket) = Some bucket"
  by (simp_all add: event_bucket_def)

lemma CreateStorage_event_buckets:
  assumes g: "getS3BucketConfig p bs = Inr (cfg0, stratCfg)"
    and e: "e \<in> set (events (CreateStorage p bs))" and b: "event_bucket e = Some b"
  shows "b = bucket_of bs cfg0"
proof (cases p bs rule: CreateStorage_cases)
  case (update_failed err)
  with e b show ?thesis
    by (auto simp add: CreateStorage_update_failed events_def update_events_def split: if_splits)
next
  case (config_failed err)
  with g show ?thesis by simp
next
  case (user_credentials_failed cfg0' stratCfg' err)
  with g e b show ?thesis
    by (auto simp add: CreateStorage_user_credentials_failed events_def update_events_def
        split: if_splits)
next
  case (provider_credentials_failed cfg0' stratCfg' endUserCreds err)
  with g e b show ?thesis
    by (auto simp add: CreateStorage_provider_credentials_failed events_def setup_events_def
        update_events_def split: if_splits)
next
  case (session_failed cfg0' stratCfg' endUserCreds providerCreds err)
  with g e b show ?thesis
    by (auto simp add: CreateStorage_session_failed events_def setup_events_def
        update_events_def split: if_splits)
next
  case (polled cfg0' stratCfg' endUserCreds providerCreds polled attempts)
  with g have same: "cfg0' = cfg0" by simp
  from e b show ?thesis
    by (auto simp add: CreateStorage_polled [OF polled] same events_def setup_events_def
        update_events_def split: sum.splits option.splits if_splits)
qed

lemma CreateStorage_reconciles:
  assumes g: "getS3BucketConfig p bs = Inr (cfg0, stratCfg)" and u: "persisted p bs = None"
  shows "E_ReoncileBucketOwnerCredentials (endUserCredsName bs) (Namespace bs) (bucket_of bs cfg0)
           \<in> set (events (CreateStorage p bs))"
proof (cases p bs rule: CreateStorage_cases)
  case (update_failed err)
  with u show ?thesis by simp
next
  case (config_failed err)
  with g show ?thesis by simp
next
  case (user_credentials_failed cfg0' stratCfg' err)
  with g show ?thesis
    by (auto simp add: CreateStorage_user_credentials_failed events_def)
next
  case (provider_credentials_failed cfg0' stratCfg' endUserCreds err)
  with g show ?thesis
    by (auto simp add: CreateStorage_provider_credentials_failed events_def setup_events_def)
next
  case (session_failed cfg0' stratCfg' endUserCreds providerCreds err)
  with g show ?thesis
    by (auto simp add: CreateStorage_session_failed events_def setup_events_def)
next
  case (polled cfg0' stratCfg' endUserCreds providerCreds polled attempts)
  with g have same: "cfg0' = cfg0" by simp
  show ?thesis
    by (simp add: CreateStorage_polled [OF polled] same events_def setup_events_def
        split: sum.splits option.splits)
qed

lemma DeleteStorage_event_buckets:
  assumes g: "getS3BucketConfig p bs = Inr (cfg0, stratCfg)"
    and e: "e \<in> set (events (DeleteStorage p bs))" and b: "event_bucket e = Some b"
  shows "b = bucket_of bs cfg0"
proof (cases p bs rule: DeleteStorage_cases)
  case (config_failed err)
  with g show ?thesis by simp
next
  case (credentials_failed cfg0' stratCfg' err)
  with g e b show ?thesis
    by (auto simp add: DeleteStorage_credentials_failed events_def)
next
  case (session_failed cfg0' stratCfg' providerCreds err)
  with g e b show ?thesis
    by (auto simp add: DeleteStorage_session_failed events_def)
next
  case (delete_failed cfg0' stratCfg' providerCreds failure)
  with g e b show ?thesis
    by (auto simp add: DeleteStorage_delete_failed events_def delete_events_def)
next
  case (wait_failed cfg0' stratCfg' providerCreds err)
  with g e b show ?thesis
    by (auto simp add: DeleteStorage_wait_failed events_def delete_events_def)
next
  case (credentials_request_failed cfg0' stratCfg' providerCreds err)
  with g e b show ?thesis
    by (auto simp add: DeleteStorage_credentials_request_failed events_def delete_events_def)
next
  case (released cfg0' stratCfg' providerCreds)
  with g have same: "cfg0' = cfg0" by simp
  from e b show ?thesis
    by (auto simp add: DeleteStorage_released [OF released] same events_def delete_events_def)
qed

lemma DeleteStorage_deletes:
  assumes g: "getS3BucketConfig p bs = Inr (cfg0, stratCfg)"
    and r: "ReconcileProviderCredentials p (Namespace bs) = Inr providerCreds"
    and n: "NewSession p (new_session stratCfg providerCreds) = None"
  shows "E_DeleteBucket (new_session stratCfg providerCreds) (bucket_of bs cfg0)
           \<in> set (events (DeleteStorage p bs))"
  using assms
  by (simp add: DeleteStorage_def Let_def events_def split: option.splits)

lemma bucket_of_default: "Bucket cfg0 = None \<Longrightarrow> bucket_of bs cfg0 = Namespace bs @ ''-'' @ Name bs"
  by (simp add: bucket_of_def)

text \<open>
  C9. When the strategy decoded for the request names no bucket, every call of
  \<open>CreateStorage\<close> and of \<open>DeleteStorage\<close> that names a bucket names the one made of the
  request's namespace, a hyphen and its name, and so does the instance \<open>CreateStorage\<close>
  returns: the end-user credentials are reconciled for that bucket (once the finalizer
  is persisted), and that bucket is deleted (once the provider credentials and the
  session are there).
\<close>

theorem derived_bucket_name:
  assumes "getS3BucketConfig p bs = Inr (cfg0, stratCfg)" and "Bucket cfg0 = None"
  shows "(\<forall>e \<in> set (events (CreateStorage p bs)) \<union> set (events (DeleteStorage p bs)).
            \<forall>b. event_bucket e = Some b \<longrightarrow> b = Namespace bs @ ''-'' @ Name bs)
       \<and> (\<forall>bsi. result (CreateStorage p bs) = Returns (Inr bsi)
            \<longrightarrow> BucketName (DeploymentDetails bsi) = Namespace bs @ ''-'' @ Name bs)
       \<and> ((DeletionTimestamp bs = None
             \<longrightarrow> Client_Update p (bs\<lparr>Finalizers := AddFinalizer (Finalizers bs) (DefaultFinalizer p)\<rparr>)
                   = None)
            \<longrightarrow> E_ReoncileBucketOwnerCredentials (endUserCredsName bs) (Namespace bs)
                  (Namespace bs @ ''-'' @ Name bs) \<in> set (events (CreateStorage p bs)))
       \<and> (\<forall>providerCreds.
             ReconcileProviderCredentials p (Namespace bs) = Inr providerCreds
             \<and> NewSession p (new_session stratCfg providerCreds) = None
             \<longrightarrow> E_DeleteBucket (new_session stratCfg providerCreds) (Namespace bs @ ''-'' @ Name bs)
                   \<in> set (events (DeleteStorage p bs)))"
proof -
  note name = bucket_of_default [OF assms(2), of bs]
  have calls: "\<forall>e \<in> set (events (CreateStorage p bs)) \<union> set (events (DeleteStorage p bs)).
            \<forall>b. event_bucket e = Some b \<longrightarrow> b = Namespace bs @ ''-'' @ Name bs"
    using CreateStorage_event_buckets [OF assms(1)] DeleteStorage_event_buckets [OF assms(1)] name
    by auto
  have returned: "BucketName (DeploymentDetails bsi) = Namespace bs @ ''-'' @ Name bs"
    if "result (CreateStorage p bs) = Returns (Inr bsi)" for bsi
    using CreateStorage_returned_instance [OF that] assms(1) name
    by (auto simp add: instance_of_def)
  have reconciled: "E_ReoncileBucketOwnerCredentials (endUserCredsName bs) (Namespace bs)
                  (Namespace bs @ ''-'' @ Name bs) \<in> set (events (CreateStorage p bs))"
    if "DeletionTimestamp bs = None
          \<longrightarrow> Client_Update p (bs\<lparr>Finalizers := AddFinalizer (Finalizers bs) (DefaultFinalizer p)\<rparr>)
                = None"
  proof -
    from that have "persisted p bs = None"
      by (simp add: persisted_def finalized_def)
    from CreateStorage_reconciles [OF assms(1) this] name show ?thesis by simp
  qed
  have deleted: "E_DeleteBucket (new_session stratCfg providerCreds) (Namespace bs @ ''-'' @ Name bs)
                   \<in> set (events (DeleteStorage p bs))"
    if "ReconcileProviderCredentials p (Namespace bs) = Inr providerCreds"
      "NewSession p (new_session stratCfg providerCreds) = None" for providerCreds
    using DeleteStorage_deletes [OF assms(1) that] name by simp
  from calls returned reconciled deleted show ?thesis
    by blast
qed

theorem derived_bucket_name_witness:
  "getS3BucketConfig (simulated empty_cluster) store_request
     = Inr (\<lparr>Bucket = None, OtherFields = ''{}''\<rparr>, \<lparr>Region = ''us-east-1'', RawStrategy = ''{}''\<rparr>)
   \<and> Bucket \<lparr>Bucket = None, OtherFields = ''{}''\<rparr> = None
   \<and> Namespace store_request @ ''-'' @ Name store_request = ''ns1-store''
   \<and> result (CreateStorage (simulated empty_cluster) store_request) = Returns (Inr store_instance)
   \<and> BucketName (DeploymentDetails store_instance) = ''ns1-store''
   \<and> E_ReoncileBucketOwnerCredentials (endUserCredsName store_request) (Namespace store_request)
       ''ns1-store'' \<in> set (events (CreateStorage (simulated empty_cluster) store_request))
   \<and> E_DeleteBucket store_session ''ns1-store''
       \<in> set (events (DeleteStorage (simulated empty_cluster) store_request))"
proof -
  have g: "getS3BucketConfig (simulated empty_cluster) store_request
     = Inr (\<lparr>Bucket = None, OtherFields = ''{}''\<rparr>, \<lparr>Region = ''us-east-1'', RawStrategy = ''{}''\<rparr>)"
    by code_simp
  have none: "Bucket \<lparr>Bucket = None, OtherFields = ''{}''\<rparr> = None"
    by simp
  have name: "Namespace store_request @ ''-'' @ Name store_request = ''ns1-store''"
    by code_simp
  have returned: "result (CreateStorage (simulated empty_cluster) store_request)
      = Returns (Inr store_instance)"
    by code_simp
  have persisted: "Client_Update (simulated empty_cluster)
      (store_request\<lparr>Finalizers := AddFinalizer (Finalizers store_request)
         (DefaultFinalizer (simulated empty_cluster))\<rparr>) = None"
    by code_simp
  have creds: "ReconcileProviderCredentials (simulated empty_cluster) (Namespace store_request)
      = Inr \<lparr>AccessKeyID = ''key-provider'', SecretAccessKey = ''secret-provider''\<rparr>"
    "NewSession (simulated empty_cluster)
       (new_session \<lparr>Region = ''us-east-1'', RawStrategy = ''{}''\<rparr>
          \<lparr>AccessKeyID = ''key-provider'', SecretAccessKey = ''secret-provider''\<rparr>) = None"
    by code_simp+
  have sess: "new_session \<lparr>Region = ''us-east-1'', RawStrategy = ''{}''\<rparr>
          \<lparr>AccessKeyID = ''key-provider'', SecretAccessKey = ''secret-provider''\<rparr> = store_session"
    by code_simp
  note concl = derived_bucket_name [OF g none, unfolded name]
  from concl returned have c1: "BucketName (DeploymentDetails store_instance) = ''ns1-store''"
    by blast
  from concl persisted have c2:
    "E_ReoncileBucketOwnerCredentials (endUserCredsName store_request) (Namespace store_request)
       ''ns1-store''
     \<in> set (events (CreateStorage (simulated empty_cluster) store_request))"
    by blast
  from concl creds have
    "E_DeleteBucket (new_session \<lparr>Region = ''us-east-1'', RawStrategy = ''{}''\<rparr>
          \<lparr>AccessKeyID = ''key-provider'', SecretAccessKey = ''secret-provider''\<rparr>)
       ''ns1-store''
     \<in> set (events (DeleteStorage (simulated empty_cluster) store_request))"
    by blast
  then have c3: "E_DeleteBucket store_session ''ns1-store''
     \<in> set (events (DeleteStorage (simulated empty_cluster) store_request))"
    by (simp only: sess)
  from g none name returned c1 c2 c3 show ?thesis
    by (intro conjI)
qed

end
